theory Spec2Isabelle
  imports Main
begin

section \<open>Data model\<close>

text \<open>
  Values of Go's \<open>any\<close> as they occur in a credential: the issuer (a string or an
  object) and the entries of the subject mapping.
\<close>

datatype any = ANil | AStr string | AInt int | ABool bool | AObj "(string \<times> string) list"

type_synonym addr = nat

type_synonym smap = "string \<rightharpoonup> any"

text \<open>
  Modelled from the spec: the type \<open>credential.VerifiableCredential\<close> is declared outside
  the files at hand. Its fields are the ones the data model lists: issuer, subject
  (a mapping, here a reference into the store, \<open>None\<close> for a nil map), id, issuance date,
  expiration date and an optional proof.
\<close>

record credential =
  ID :: string
  Issuer :: any
  IssuanceDate :: string
  ExpirationDate :: string
  CredentialSubject :: "addr option"
  Proof :: "string option"

text \<open>An embedded credential of a presentation is a signed token or an object.\<close>

datatype vcany = VCToken string | VCObject credential

text \<open>
  Modelled from the spec: the type \<open>credential.VerifiablePresentation\<close> is declared
  outside the files at hand: holder, id, the ordered list of credentials, optional proof.
\<close>

record presentation =
  PID :: string
  Holder :: string
  VerifiableCredential :: "vcany list"
  PProof :: "string option"

text \<open>
  The value of a claim of a \<open>jwt.Token\<close>: a string, a time (seconds since the epoch), a
  number, a list of strings, a credential or presentation, or any other value.
\<close>

datatype claim =
    CStr string
  | CTime int
  | CInt int
  | CAud "string list"
  | CCred credential
  | CPres presentation
  | CAny any

type_synonym token = "string \<rightharpoonup> claim"

datatype error =
    CredentialEmpty
  | CredentialHasProof
  | PresentationEmpty
  | PresentationHasProof
  | HolderNotSigner
  | InvalidClaimValue string
  | Wrap string error
  | SettingCredentialValue
  | SettingIssValue
  | PropertyNotFound string
  | IssuerNotString
  | ResolverEmpty
  | AudienceMismatch string string "string list"
  | VerifyingCredential nat error
  | CredentialFailedSignature nat
  | SignatureFailure
  | MalformedToken
  | UnreadableDate
  | NotAnObject

text \<open>
  The store: the subject mappings that credentials refer to, the next free address, and
  the number of identifiers drawn from the generator so far.
\<close>

record state =
  heap :: "addr \<rightharpoonup> smap"
  next_addr :: addr
  uuid_count :: nat

text \<open>
  What the functions take from their libraries: how the token library reads a string as a
  date (\<open>NumericDate\<close>), how a time prints as a timestamp (\<open>time.RFC3339\<close>), the
  identifier generator, the clock, and the signature primitive (algorithm and key to a
  signature, or a failure).
\<close>

record env =
  accept_date :: "string \<Rightarrow> int option"
  format_rfc3339 :: "int \<Rightarrow> string"
  uuid_at :: "nat \<Rightarrow> string"
  now :: int
  crypto_sign :: "string \<Rightarrow> string \<Rightarrow> string option"

record signer =
  SID :: string
  KID :: string
  ALG :: string
  PrivateKey :: string

record headers =
  hdr_kid :: "string option"
  hdr_alg :: "string option"

text \<open>
  A compact token. \<open>Compact\<close> stands for a token that \<open>jwt.Parse\<close> reads: its protected
  headers, the claim set as it is read, and the signature. \<open>Unreadable\<close> stands for a signed
  token whose claim set holds a date that \<open>jwt.Parse\<close> refuses: its headers, the claim set
  as it was signed, and the signature. \<open>Garbage\<close> is any other string.
\<close>

datatype compact =
    Compact headers token string
  | Unreadable headers token string
  | Garbage string

section \<open>The token library\<close>

definition jwt_New :: token where
  "jwt_New = Map.empty"

text \<open>
  \<open>Token.Set\<close>: the date claims take a time, a number, or a string that reads as a date;
  \<open>iss\<close>, \<open>jti\<close> and \<open>sub\<close> take a string; \<open>aud\<close> takes a string or a list of
  strings; any other claim takes any value.
\<close>

definition jwt_Set :: "env \<Rightarrow> string \<Rightarrow> claim \<Rightarrow> token \<Rightarrow> error + token" where
  "jwt_Set env k v t =
     (if k = ''exp'' \<or> k = ''iat'' \<or> k = ''nbf'' then
        (case v of
           CStr s \<Rightarrow> (case accept_date env s of
                        None \<Rightarrow> Inl (InvalidClaimValue k)
                      | Some d \<Rightarrow> Inr (t(k \<mapsto> CTime d)))
         | CInt n \<Rightarrow> Inr (t(k \<mapsto> CTime n))
         | CTime d \<Rightarrow> Inr (t(k \<mapsto> CTime d))
         | _ \<Rightarrow> Inl (InvalidClaimValue k))
      else if k = ''iss'' \<or> k = ''jti'' \<or> k = ''sub'' then
        (case v of
           CStr s \<Rightarrow> Inr (t(k \<mapsto> CStr s))
         | _ \<Rightarrow> Inl (InvalidClaimValue k))
      else if k = ''aud'' then
        (case v of
           CAud a \<Rightarrow> Inr (t(k \<mapsto> CAud a))
         | CStr a \<Rightarrow> Inr (t(k \<mapsto> CAud [a]))
         | _ \<Rightarrow> Inl (InvalidClaimValue k))
      else Inr (t(k \<mapsto> v)))"

definition claim_of_any :: "any \<Rightarrow> claim" where
  "claim_of_any a = (case a of AStr s \<Rightarrow> CStr s | _ \<Rightarrow> CAny a)"

definition uuid_New :: "env \<Rightarrow> state \<Rightarrow> string \<times> state" where
  "uuid_New env s = (uuid_at env (uuid_count s), s\<lparr>uuid_count := Suc (uuid_count s)\<rparr>)"

text \<open>
  How \<open>jwt.Parse\<close> reads back a date claim that \<open>jwt.Sign\<close> wrote as a number of seconds:
  a negative number is refused; the number passes through a 64-bit float, so above
  \<open>2 ^ 53\<close> it is rounded to the nearest float (ties to the even mantissa), and a number
  that rounds to \<open>2 ^ 63\<close> or more is refused.
\<close>

function f64_exp :: "int \<Rightarrow> nat" where
  "f64_exp d = (if d < 2 ^ 53 then 0 else Suc (f64_exp (d div 2)))"
  by pat_completeness auto
termination
  by (relation "measure nat") auto

declare f64_exp.simps [simp del]

definition round_to :: "nat \<Rightarrow> int \<Rightarrow> int" where
  "round_to e d =
     (let q = d div 2 ^ e; r = d mod 2 ^ e; h = 2 ^ (e - 1)
      in if r > h \<or> (r = h \<and> odd q) then (q + 1) * 2 ^ e else q * 2 ^ e)"

definition f64_round :: "int \<Rightarrow> int" where
  "f64_round d = (if d \<le> 2 ^ 53 then d else round_to (f64_exp d) d)"

definition read_numeric_date :: "int \<Rightarrow> int option" where
  "read_numeric_date d =
     (if d < 0 then None
      else if f64_round d \<ge> 2 ^ 63 then None
      else Some (f64_round d))"

text \<open>A claim as it reads back: a time goes through \<open>read_numeric_date\<close>, anything else is kept.\<close>

definition readable_claim :: "claim option \<Rightarrow> bool" where
  "readable_claim v = (case v of Some (CTime d) \<Rightarrow> read_numeric_date d \<noteq> None | _ \<Rightarrow> True)"

definition read_claim :: "claim option \<Rightarrow> claim option" where
  "read_claim v =
     (case v of
        Some (CTime d) \<Rightarrow> (case read_numeric_date d of None \<Rightarrow> v | Some d' \<Rightarrow> Some (CTime d'))
      | _ \<Rightarrow> v)"

definition readable :: "token \<Rightarrow> bool" where
  "readable t \<longleftrightarrow> readable_claim (t ''exp'') \<and> readable_claim (t ''iat'') \<and> readable_claim (t ''nbf'')"

definition readback :: "token \<Rightarrow> token" where
  "readback t = (\<lambda>k. if k = ''exp'' \<or> k = ''iat'' \<or> k = ''nbf'' then read_claim (t k) else t k)"

text \<open>
  \<open>jwt.Sign\<close>: the signature primitive may fail; otherwise the claim set is written out and
  signed. The token that results is \<open>Compact\<close>, with the claim set as it reads back, when
  every date claim reads back, and \<open>Unreadable\<close> otherwise.
\<close>

definition jwt_Sign :: "env \<Rightarrow> token \<Rightarrow> string \<Rightarrow> string \<Rightarrow> headers \<Rightarrow> error + compact" where
  "jwt_Sign env t alg key hdrs =
     (case crypto_sign env alg key of
        None \<Rightarrow> Inl SignatureFailure
      | Some sg \<Rightarrow>
          if readable t then Inr (Compact (hdrs\<lparr>hdr_alg := Some alg\<rparr>) (readback t) sg)
          else Inr (Unreadable (hdrs\<lparr>hdr_alg := Some alg\<rparr>) t sg))"

definition jwt_Parse :: "compact \<Rightarrow> error + token" where
  "jwt_Parse c =
     (case c of
        Compact h t sg \<Rightarrow> Inr t
      | Unreadable h t sg \<Rightarrow> Inl UnreadableDate
      | Garbage x \<Rightarrow> Inl MalformedToken)"

definition GetJWSHeaders :: "compact \<Rightarrow> error + headers" where
  "GetJWSHeaders c =
     (case c of
        Compact h t sg \<Rightarrow> Inr h
      | Unreadable h t sg \<Rightarrow> Inr h
      | Garbage x \<Rightarrow> Inl MalformedToken)"

section \<open>Credentials\<close>

text \<open>
  Modelled from the spec: \<open>IsEmpty\<close> is declared outside the files at hand; an entirely
  empty credential is one with no populated field.
\<close>

definition IsEmpty :: "credential \<Rightarrow> bool" where
  "IsEmpty c \<longleftrightarrow> ID c = '''' \<and> Issuer c = ANil \<and> IssuanceDate c = '''' \<and>
     ExpirationDate c = '''' \<and> CredentialSubject c = None \<and> Proof c = None"

text \<open>
  Modelled from the spec: \<open>CredentialSubject.GetID\<close> is declared outside the files at
  hand; it is the subject's "id" entry, empty when there is none.
\<close>

definition GetID :: "state \<Rightarrow> addr option \<Rightarrow> string" where
  "GetID s subj =
     (case subj of
        None \<Rightarrow> ''''
      | Some a \<Rightarrow> (case heap s a of
                    None \<Rightarrow> ''''
                  | Some m \<Rightarrow> (case m ''id'' of Some (AStr x) \<Rightarrow> x | _ \<Rightarrow> '''')))"

text \<open>Go's \<open>delete(m, k)\<close>: the mapping behind the reference loses the key; nil is left alone.\<close>

definition delete_key :: "state \<Rightarrow> addr option \<Rightarrow> string \<Rightarrow> state" where
  "delete_key s subj k =
     (case subj of
        None \<Rightarrow> s
      | Some a \<Rightarrow> (case heap s a of
                    None \<Rightarrow> s
                  | Some m \<Rightarrow> s\<lparr>heap := (heap s)(a \<mapsto> m(k := None))\<rparr>))"

text \<open>The expiration step of \<open>JWTClaimSetFromVC\<close> (lines 63 to 70).\<close>

definition set_exp :: "env \<Rightarrow> credential \<Rightarrow> token \<Rightarrow> error + (token \<times> credential)" where
  "set_exp env cred t =
     (if ExpirationDate cred \<noteq> '''' then
        (case jwt_Set env ''exp'' (CStr (ExpirationDate cred)) t of
           Inl e \<Rightarrow> Inl (Wrap ''setting exp value'' e)
         | Inr t' \<Rightarrow> Inr (t', cred\<lparr>ExpirationDate := ''''\<rparr>))
      else Inr (t, cred))"

text \<open>The issuer and issuance-date steps (lines 76 to 89).\<close>

definition set_iss_iat :: "env \<Rightarrow> credential \<Rightarrow> token \<Rightarrow> error + (token \<times> credential)" where
  "set_iss_iat env cred t =
     (case jwt_Set env ''iss'' (claim_of_any (Issuer cred)) t of
        Inl e \<Rightarrow> Inl (Wrap ''setting exp value'' e)
      | Inr t1 \<Rightarrow>
          let cred1 = cred\<lparr>Issuer := ANil\<rparr> in
          (case jwt_Set env ''iat'' (CStr (IssuanceDate cred1)) t1 of
             Inl e \<Rightarrow> Inl (Wrap ''setting iat value'' e)
           | Inr t2 \<Rightarrow>
               (case jwt_Set env ''nbf'' (CStr (IssuanceDate cred1)) t2 of
                  Inl e \<Rightarrow> Inl (Wrap ''setting nbf value'' e)
                | Inr t3 \<Rightarrow> Inr (t3, cred1\<lparr>IssuanceDate := ''''\<rparr>))))"

text \<open>The id step (lines 91 to 98).\<close>

definition set_jti :: "env \<Rightarrow> credential \<Rightarrow> token \<Rightarrow> error + (token \<times> credential)" where
  "set_jti env cred t =
     (let idVal = ID cred in
      if idVal \<noteq> '''' then
        (case jwt_Set env ''jti'' (CStr idVal) t of
           Inl e \<Rightarrow> Inl (Wrap ''setting jti value'' e)
         | Inr t' \<Rightarrow> Inr (t', cred\<lparr>ID := ''''\<rparr>))
      else Inr (t, cred))"

text \<open>The subject step (lines 100 to 107): the shared mapping loses its "id" entry.\<close>

definition set_sub :: "env \<Rightarrow> state \<Rightarrow> credential \<Rightarrow> token \<Rightarrow> error + (token \<times> state)" where
  "set_sub env s cred t =
     (let subVal = GetID s (CredentialSubject cred) in
      if subVal \<noteq> '''' then
        (case jwt_Set env ''sub'' (CStr subVal) t of
           Inl e \<Rightarrow> Inl (Wrap ''setting subject value'' e)
         | Inr t' \<Rightarrow> Inr (t', delete_key s (CredentialSubject cred) ''id''))
      else Inr (t, s))"

text \<open>
  \<open>JWTClaimSetFromVC\<close>. The credential is the callee's copy; the store is returned
  updated, also when a later step fails.
\<close>

definition JWTClaimSetFromVC :: "env \<Rightarrow> state \<Rightarrow> credential \<Rightarrow> state \<times> (error + token)" where
  "JWTClaimSetFromVC env s cred =
     (case set_exp env cred jwt_New of
        Inl e \<Rightarrow> (s, Inl e)
      | Inr (t1, cred1) \<Rightarrow>
          let (u, s1) = uuid_New env s in
          (case jwt_Set env ''nonce'' (CStr u) t1 of
             Inl e \<Rightarrow> (s1, Inl (Wrap ''setting nonce value'' e))
           | Inr t2 \<Rightarrow>
               (case set_iss_iat env cred1 t2 of
                  Inl e \<Rightarrow> (s1, Inl e)
                | Inr (t3, cred3) \<Rightarrow>
                    (case set_jti env cred3 t3 of
                       Inl e \<Rightarrow> (s1, Inl e)
                     | Inr (t4, cred4) \<Rightarrow>
                         (case set_sub env s1 cred4 t4 of
                            Inl e \<Rightarrow> (s1, Inl e)
                          | Inr (t5, s2) \<Rightarrow>
                              (case jwt_Set env ''vc'' (CCred cred4) t5 of
                                 Inl e \<Rightarrow> (s2, Inl SettingCredentialValue)
                               | Inr t6 \<Rightarrow> (s2, Inr t6)))))))"

definition new_headers :: "signer \<Rightarrow> headers" where
  "new_headers sg =
     (let hdrs = \<lparr>hdr_kid = None, hdr_alg = None\<rparr> in
      if KID sg \<noteq> '''' then hdrs\<lparr>hdr_kid := Some (KID sg)\<rparr> else hdrs)"

definition resolve_alg :: "signer \<Rightarrow> string" where
  "resolve_alg sg = (let alg = ALG sg in if alg = ''Ed25519'' then ''EdDSA'' else alg)"

text \<open>
  The outcome of a signing call: the store, whether the signing primitive was invoked,
  and the result.
\<close>

record 'a outcome =
  out_state :: state
  signer_invoked :: bool
  result :: "error + 'a"

definition SignVerifiableCredentialJWT :: "env \<Rightarrow> state \<Rightarrow> signer \<Rightarrow> credential \<Rightarrow> compact outcome" where
  "SignVerifiableCredentialJWT env s sg cred =
     (if IsEmpty cred then
        \<lparr>out_state = s, signer_invoked = False, result = Inl CredentialEmpty\<rparr>
      else if Proof cred \<noteq> None then
        \<lparr>out_state = s, signer_invoked = False, result = Inl CredentialHasProof\<rparr>
      else
        (case JWTClaimSetFromVC env s cred of
           (s', Inl e) \<Rightarrow> \<lparr>out_state = s', signer_invoked = False, result = Inl e\<rparr>
         | (s', Inr t) \<Rightarrow>
             (case jwt_Sign env t (resolve_alg sg) (PrivateKey sg) (new_headers sg) of
                Inl e \<Rightarrow> \<lparr>out_state = s', signer_invoked = True,
                          result = Inl (Wrap ''signing JWT credential'' e)\<rparr>
              | Inr signed \<Rightarrow> \<lparr>out_state = s', signer_invoked = True, result = Inr signed\<rparr>)))"

text \<open>A fresh mapping in the store, as \<open>make\<close> and the JSON decoder create one.\<close>

definition alloc :: "state \<Rightarrow> smap \<Rightarrow> addr \<times> state" where
  "alloc s m = (next_addr s, s\<lparr>heap := (heap s)(next_addr s \<mapsto> m), next_addr := Suc (next_addr s)\<rparr>)"

text \<open>Go's \<open>m[k] = v\<close> on the mapping behind a reference.\<close>

definition store_key :: "state \<Rightarrow> addr \<Rightarrow> string \<Rightarrow> any \<Rightarrow> state" where
  "store_key s a k v =
     s\<lparr>heap := (heap s)(a \<mapsto> (case heap s a of None \<Rightarrow> Map.empty | Some m \<Rightarrow> m)(k \<mapsto> v))\<rparr>"

definition zero_credential :: credential where
  "zero_credential = \<lparr>ID = '''', Issuer = ANil, IssuanceDate = '''', ExpirationDate = '''',
     CredentialSubject = None, Proof = None\<rparr>"

definition str_field :: "(string \<times> string) list \<Rightarrow> string \<Rightarrow> string" where
  "str_field kv k = (case map_of kv k of None \<Rightarrow> '''' | Some v \<Rightarrow> v)"

text \<open>
  \<open>json.Marshal\<close> of the \<open>vc\<close> claim followed by \<open>json.Unmarshal\<close> into a credential
  (lines 158 to 165): a credential comes back as a copy whose subject is a fresh mapping
  with the same entries; an object gives the fields it has; null gives the zero
  credential; a string, a number, a boolean, a time or a list is not an object, and the
  decoder fails.
\<close>

definition decode_credential :: "state \<Rightarrow> claim \<Rightarrow> error + (state \<times> credential)" where
  "decode_credential s v =
     (case v of
        CCred c \<Rightarrow>
          (case CredentialSubject c of
             None \<Rightarrow> Inr (s, c)
           | Some a \<Rightarrow>
               (case heap s a of
                  None \<Rightarrow> Inr (s, c\<lparr>CredentialSubject := None\<rparr>)
                | Some m \<Rightarrow> let (a', s') = alloc s m in Inr (s', c\<lparr>CredentialSubject := Some a'\<rparr>)))
      | CPres p \<Rightarrow> Inr (s, zero_credential\<lparr>ID := PID p, Proof := PProof p\<rparr>)
      | CAny ANil \<Rightarrow> Inr (s, zero_credential)
      | CAny (AObj kv) \<Rightarrow>
          (if ''credentialSubject'' \<in> fst ` set kv
           then Inl (Wrap ''reconstructing Verifiable Credential'' NotAnObject)
           else Inr (s, \<lparr>ID = str_field kv ''id'',
                        Issuer = (case map_of kv ''issuer'' of None \<Rightarrow> ANil | Some x \<Rightarrow> AStr x),
                        IssuanceDate = str_field kv ''issuanceDate'',
                        ExpirationDate = str_field kv ''expirationDate'',
                        CredentialSubject = None,
                        Proof = map_of kv ''proof''\<rparr>))
      | _ \<Rightarrow> Inl (Wrap ''reconstructing Verifiable Credential'' NotAnObject))"

text \<open>The five overlays of \<open>ParseVerifiableCredentialFromToken\<close> (lines 167 to 199).\<close>

definition overlay_jti :: "token \<Rightarrow> credential \<Rightarrow> credential" where
  "overlay_jti t cred =
     (case t ''jti'' of
        Some (CStr jtiStr) \<Rightarrow> if jtiStr \<noteq> '''' then cred\<lparr>ID := jtiStr\<rparr> else cred
      | _ \<Rightarrow> cred)"

definition overlay_iat :: "env \<Rightarrow> token \<Rightarrow> credential \<Rightarrow> credential" where
  "overlay_iat env t cred =
     (case t ''iat'' of
        Some (CTime iatTime) \<Rightarrow> cred\<lparr>IssuanceDate := format_rfc3339 env iatTime\<rparr>
      | _ \<Rightarrow> cred)"

definition overlay_exp :: "env \<Rightarrow> token \<Rightarrow> credential \<Rightarrow> credential" where
  "overlay_exp env t cred =
     (case t ''exp'' of
        Some (CTime expTime) \<Rightarrow> cred\<lparr>ExpirationDate := format_rfc3339 env expTime\<rparr>
      | _ \<Rightarrow> cred)"

definition overlay_iss :: "token \<Rightarrow> credential \<Rightarrow> credential" where
  "overlay_iss t cred =
     (case t ''iss'' of
        Some (CStr issStr) \<Rightarrow> if issStr \<noteq> '''' then cred\<lparr>Issuer := AStr issStr\<rparr> else cred
      | _ \<Rightarrow> cred)"

definition overlay_sub :: "token \<Rightarrow> state \<Rightarrow> credential \<Rightarrow> state \<times> credential" where
  "overlay_sub t s cred =
     (case t ''sub'' of
        Some (CStr subStr) \<Rightarrow>
          if subStr \<noteq> '''' then
            (case CredentialSubject cred of
               None \<Rightarrow> let (a, s') = alloc s Map.empty
                       in (store_key s' a ''id'' (AStr subStr), cred\<lparr>CredentialSubject := Some a\<rparr>)
             | Some a \<Rightarrow> (store_key s a ''id'' (AStr subStr), cred))
          else (s, cred)
      | _ \<Rightarrow> (s, cred))"

definition ParseVerifiableCredentialFromToken ::
  "env \<Rightarrow> state \<Rightarrow> token \<Rightarrow> error + (state \<times> credential)" where
  "ParseVerifiableCredentialFromToken env s t =
     (case t ''vc'' of
        None \<Rightarrow> Inl (PropertyNotFound ''vc'')
      | Some vcClaim \<Rightarrow>
          (case decode_credential s vcClaim of
             Inl e \<Rightarrow> Inl e
           | Inr (s1, cred) \<Rightarrow>
               Inr (overlay_sub t s1
                     (overlay_iss t (overlay_exp env t (overlay_iat env t (overlay_jti t cred)))))))"

text \<open>The subject's "id" entry of a credential, read through the store.\<close>

definition subject_id :: "state \<Rightarrow> credential \<Rightarrow> any option" where
  "subject_id s c =
     (case CredentialSubject c of
        None \<Rightarrow> None
      | Some a \<Rightarrow> (case heap s a of None \<Rightarrow> None | Some m \<Rightarrow> m ''id''))"

section \<open>Presentations\<close>

text \<open>\<open>JWTVVPParameters\<close>: an optional audience (a nil slice is \<open>None\<close>) and an expiration.\<close>

record JWTVVPParameters =
  Audience :: "string list option"
  Expiration :: int

text \<open>
  Modelled from the spec: the presentation's \<open>IsEmpty\<close> is declared outside the files at
  hand; an empty presentation is one with no populated field.
\<close>

definition PIsEmpty :: "presentation \<Rightarrow> bool" where
  "PIsEmpty p \<longleftrightarrow> PID p = '''' \<and> Holder p = '''' \<and> VerifiableCredential p = [] \<and> PProof p = None"

text \<open>The parameter steps of \<open>SignVerifiablePresentationJWT\<close> (lines 228 to 249).\<close>

definition set_aud :: "env \<Rightarrow> JWTVVPParameters option \<Rightarrow> token \<Rightarrow> error + token" where
  "set_aud env parameters t =
     (case parameters of
        None \<Rightarrow> Inr t
      | Some ps \<Rightarrow>
          (case Audience ps of
             None \<Rightarrow> Inr t
           | Some aud \<Rightarrow>
               (case jwt_Set env ''aud'' (CAud aud) t of
                  Inl e \<Rightarrow> Inl (Wrap ''setting audience value'' e)
                | Inr t' \<Rightarrow> Inr t')))"

definition set_iat_nbf :: "env \<Rightarrow> token \<Rightarrow> error + token" where
  "set_iat_nbf env t =
     (let iatAndNBF = now env in
      case jwt_Set env ''iat'' (CInt iatAndNBF) t of
        Inl e \<Rightarrow> Inl (Wrap ''setting iat value'' e)
      | Inr t1 \<Rightarrow>
          (case jwt_Set env ''nbf'' (CInt iatAndNBF) t1 of
             Inl e \<Rightarrow> Inl (Wrap ''setting nbf value'' e)
           | Inr t2 \<Rightarrow> Inr t2))"

definition set_vp_exp :: "env \<Rightarrow> JWTVVPParameters option \<Rightarrow> token \<Rightarrow> error + token" where
  "set_vp_exp env parameters t =
     (case parameters of
        None \<Rightarrow> Inr t
      | Some ps \<Rightarrow>
          if Expiration ps > 0 then
            (case jwt_Set env ''exp'' (CInt (Expiration ps)) t of
               Inl e \<Rightarrow> Inl (Wrap ''setting exp value'' e)
             | Inr t' \<Rightarrow> Inr t')
          else Inr t)"

text \<open>The id and holder steps (lines 252 to 268).\<close>

definition set_vp_jti :: "env \<Rightarrow> presentation \<Rightarrow> token \<Rightarrow> error + (token \<times> presentation)" where
  "set_vp_jti env pres t =
     (if PID pres \<noteq> '''' then
        (case jwt_Set env ''jti'' (CStr (PID pres)) t of
           Inl e \<Rightarrow> Inl (Wrap ''setting jti value'' e)
         | Inr t' \<Rightarrow> Inr (t', pres\<lparr>PID := ''''\<rparr>))
      else Inr (t, pres))"

definition set_vp_iss :: "env \<Rightarrow> signer \<Rightarrow> presentation \<Rightarrow> token \<Rightarrow> error + (token \<times> presentation)" where
  "set_vp_iss env sg pres t =
     (if Holder pres \<noteq> '''' then
        (if Holder pres \<noteq> SID sg then Inl HolderNotSigner
         else
           (case jwt_Set env ''iss'' (CStr (Holder pres)) t of
              Inl e \<Rightarrow> Inl SettingIssValue
            | Inr t' \<Rightarrow> Inr (t', pres\<lparr>Holder := ''''\<rparr>)))
      else Inr (t, pres))"

text \<open>The claim set of a presentation: lines 222 to 272, up to the \<open>vp\<close> claim.\<close>

definition vp_claims ::
  "env \<Rightarrow> state \<Rightarrow> signer \<Rightarrow> JWTVVPParameters option \<Rightarrow> presentation \<Rightarrow> state \<times> (error + token)" where
  "vp_claims env s sg parameters pres =
     (case set_aud env parameters jwt_New of
        Inl e \<Rightarrow> (s, Inl e)
      | Inr t1 \<Rightarrow>
          (case set_iat_nbf env t1 of
             Inl e \<Rightarrow> (s, Inl e)
           | Inr t2 \<Rightarrow>
               let (u, s1) = uuid_New env s in
               (case jwt_Set env ''nonce'' (CStr u) t2 of
                  Inl e \<Rightarrow> (s1, Inl (Wrap ''setting nonce value'' e))
                | Inr t3 \<Rightarrow>
                    (case set_vp_exp env parameters t3 of
                       Inl e \<Rightarrow> (s1, Inl e)
                     | Inr t4 \<Rightarrow>
                         (case set_vp_jti env pres t4 of
                            Inl e \<Rightarrow> (s1, Inl e)
                          | Inr (t5, pres5) \<Rightarrow>
                              (case set_vp_iss env sg pres5 t5 of
                                 Inl e \<Rightarrow> (s1, Inl e)
                               | Inr (t6, pres6) \<Rightarrow>
                                   (case jwt_Set env ''vp'' (CPres pres6) t6 of
                                      Inl e \<Rightarrow> (s1, Inl (Wrap ''setting vp value'' e))
                                    | Inr t7 \<Rightarrow> (s1, Inr t7))))))))"

definition SignVerifiablePresentationJWT ::
  "env \<Rightarrow> state \<Rightarrow> signer \<Rightarrow> JWTVVPParameters option \<Rightarrow> presentation \<Rightarrow> compact outcome" where
  "SignVerifiablePresentationJWT env s sg parameters pres =
     (if PIsEmpty pres then
        \<lparr>out_state = s, signer_invoked = False, result = Inl PresentationEmpty\<rparr>
      else if PProof pres \<noteq> None then
        \<lparr>out_state = s, signer_invoked = False, result = Inl PresentationHasProof\<rparr>
      else
        (case vp_claims env s sg parameters pres of
           (s', Inl e) \<Rightarrow> \<lparr>out_state = s', signer_invoked = False, result = Inl e\<rparr>
         | (s', Inr t) \<Rightarrow>
             (case jwt_Sign env t (resolve_alg sg) (PrivateKey sg) (new_headers sg) of
                Inl e \<Rightarrow> \<lparr>out_state = s', signer_invoked = True,
                          result = Inl (Wrap ''signing JWT presentation'' e)\<rparr>
              | Inr signed \<Rightarrow> \<lparr>out_state = s', signer_invoked = True, result = Inr signed\<rparr>)))"

definition zero_presentation :: presentation where
  "zero_presentation = \<lparr>PID = '''', Holder = '''', VerifiableCredential = [], PProof = None\<rparr>"

text \<open>
  \<open>json.Marshal\<close> of the \<open>vp\<close> claim followed by \<open>json.Unmarshal\<close> into a presentation
  (lines 357 to 364), as for a credential.
\<close>

definition decode_presentation :: "claim \<Rightarrow> error + presentation" where
  "decode_presentation v =
     (case v of
        CPres p \<Rightarrow> Inr p
      | CCred c \<Rightarrow> Inr (zero_presentation\<lparr>PID := ID c, PProof := Proof c\<rparr>)
      | CAny ANil \<Rightarrow> Inr zero_presentation
      | CAny (AObj kv) \<Rightarrow>
          (if ''verifiableCredential'' \<in> fst ` set kv
           then Inl (Wrap ''reconstructing Verifiable Presentation'' NotAnObject)
           else Inr \<lparr>PID = str_field kv ''id'', Holder = str_field kv ''holder'',
                     VerifiableCredential = [], PProof = map_of kv ''proof''\<rparr>)
      | _ \<Rightarrow> Inl (Wrap ''reconstructing Verifiable Presentation'' NotAnObject))"

definition ParseVerifiablePresentationFromJWT ::
  "compact \<Rightarrow> error + (headers \<times> token \<times> presentation)" where
  "ParseVerifiablePresentationFromJWT tok =
     (case jwt_Parse tok of
        Inl e \<Rightarrow> Inl (Wrap ''parsing vp token'' e)
      | Inr parsed \<Rightarrow>
          (case parsed ''vp'' of
             None \<Rightarrow> Inl (PropertyNotFound ''vp'')
           | Some vpClaim \<Rightarrow>
               (case decode_presentation vpClaim of
                  Inl e \<Rightarrow> Inl e
                | Inr pres \<Rightarrow>
                    (case GetJWSHeaders tok of
                       Inl e \<Rightarrow> Inl (Wrap ''getting JWT headers'' e)
                     | Inr hdrs \<Rightarrow>
                         (case parsed ''iss'' of
                            None \<Rightarrow> Inl (PropertyNotFound ''iss'')
                          | Some iss \<Rightarrow>
                              (case iss of
                                 CStr issStr \<Rightarrow>
                                   let pres1 = pres\<lparr>Holder := issStr\<rparr> in
                                   Inr (hdrs, parsed,
                                        (case parsed ''jti'' of
                                           Some (CStr jtiStr) \<Rightarrow>
                                             if jtiStr \<noteq> '''' then pres1\<lparr>PID := jtiStr\<rparr> else pres1
                                         | _ \<Rightarrow> pres1))
                               | _ \<Rightarrow> Inl IssuerNotString))))))"

section \<open>Verifying a presentation\<close>

record verifier =
  VID :: string
  VKID :: string
  Verify :: "compact \<Rightarrow> error option"

text \<open>\<open>Token.Audience\<close>: the \<open>aud\<close> claim, empty when there is none.\<close>

definition token_Audience :: "token \<Rightarrow> string list" where
  "token_Audience t = (case t ''aud'' of Some (CAud a) \<Rightarrow> a | _ \<Rightarrow> [])"

text \<open>The audience loop (lines 315 to 321): it stops at the first match.\<close>

fun audMatch :: "verifier \<Rightarrow> string list \<Rightarrow> bool" where
  "audMatch v [] = False"
| "audMatch v (aud # rest) = (if aud = VID v \<or> aud = VKID v then True else audMatch v rest)"

text \<open>
  The credential loop (lines 328 to 338), from index \<open>i\<close>: the indices handed to
  \<open>VerifyCredentialSignature\<close>, in order, and the error that stopped the loop, if any.
  \<open>VerifyCredentialSignature\<close> is declared outside the files at hand and is a parameter.
\<close>

fun verify_credentials ::
  "(vcany \<Rightarrow> error + bool) \<Rightarrow> nat \<Rightarrow> vcany list \<Rightarrow> nat list \<times> error option" where
  "verify_credentials vcs i [] = ([], None)"
| "verify_credentials vcs i (cred # rest) =
     (case vcs cred of
        Inl err \<Rightarrow> ([i], Some (VerifyingCredential i err))
      | Inr verified \<Rightarrow>
          if \<not> verified then ([i], Some (CredentialFailedSignature i))
          else (let (checked, r) = verify_credentials vcs (Suc i) rest in (i # checked, r)))"

definition VerifyVerifiablePresentationJWT ::
  "verifier \<Rightarrow> ('r \<Rightarrow> vcany \<Rightarrow> error + bool) \<Rightarrow> 'r option \<Rightarrow> compact \<Rightarrow>
     nat list \<times> (error + (headers \<times> token \<times> presentation))" where
  "VerifyVerifiablePresentationJWT v vcs r tok =
     (case r of
        None \<Rightarrow> ([], Inl ResolverEmpty)
      | Some res \<Rightarrow>
          (case Verify v tok of
             Some err \<Rightarrow> ([], Inl (Wrap ''verifying JWT and its signature'' err))
           | None \<Rightarrow>
               (case ParseVerifiablePresentationFromJWT tok of
                  Inl err \<Rightarrow> ([], Inl (Wrap ''parsing VP from JWT'' err))
                | Inr (hdrs, vpToken, vp) \<Rightarrow>
                    if token_Audience vpToken \<noteq> [] \<and> \<not> audMatch v (token_Audience vpToken)
                    then ([], Inl (AudienceMismatch (VID v) (VKID v) (token_Audience vpToken)))
                    else
                      (case verify_credentials (vcs res) 0 (VerifiableCredential vp) of
                         (checked, Some err) \<Rightarrow> (checked, Inl err)
                       | (checked, None) \<Rightarrow> (checked, Inr (hdrs, vpToken, vp))))))"

section \<open>Closed forms\<close>

text \<open>The token of a presentation before the id and holder steps.\<close>

definition vp_base :: "env \<Rightarrow> state \<Rightarrow> JWTVVPParameters option \<Rightarrow> token" where
  "vp_base env s ps =
     (case ps of None \<Rightarrow> (\<lambda>t. t)
      | Some p \<Rightarrow> (\<lambda>t. if Expiration p > 0 then t(''exp'' \<mapsto> CTime (Expiration p)) else t))
     (((case ps of None \<Rightarrow> jwt_New
        | Some p \<Rightarrow> (case Audience p of None \<Rightarrow> jwt_New | Some a \<Rightarrow> jwt_New(''aud'' \<mapsto> CAud a)))
       (''iat'' \<mapsto> CTime (now env), ''nbf'' \<mapsto> CTime (now env)))
       (''nonce'' \<mapsto> CStr (uuid_at env (uuid_count s))))"

text \<open>
  When every claim assignment of \<open>JWTClaimSetFromVC\<close> is accepted: the issuer is a string
  and the dates read as dates.
\<close>

definition vc_claims_ok :: "env \<Rightarrow> credential \<Rightarrow> bool" where
  "vc_claims_ok env cred \<longleftrightarrow>
     (case Issuer cred of AStr i \<Rightarrow> True | _ \<Rightarrow> False) \<and>
     accept_date env (IssuanceDate cred) \<noteq> None \<and>
     (ExpirationDate cred = '''' \<or> accept_date env (ExpirationDate cred) \<noteq> None)"

text \<open>The credential as it is embedded: the promoted fields are blank.\<close>

definition stripped :: "credential \<Rightarrow> credential" where
  "stripped cred = cred\<lparr>ID := '''', Issuer := ANil, IssuanceDate := '''', ExpirationDate := ''''\<rparr>"

definition vc_state :: "state \<Rightarrow> credential \<Rightarrow> state" where
  "vc_state s cred =
     (if GetID s (CredentialSubject cred) \<noteq> ''''
      then delete_key (s\<lparr>uuid_count := Suc (uuid_count s)\<rparr>) (CredentialSubject cred) ''id''
      else s\<lparr>uuid_count := Suc (uuid_count s)\<rparr>)"

definition vc_token :: "env \<Rightarrow> state \<Rightarrow> credential \<Rightarrow> token" where
  "vc_token env s cred =
     ((if GetID s (CredentialSubject cred) \<noteq> ''''
       then (\<lambda>t. t(''sub'' \<mapsto> CStr (GetID s (CredentialSubject cred)))) else (\<lambda>t. t))
       ((if ID cred \<noteq> '''' then (\<lambda>t. t(''jti'' \<mapsto> CStr (ID cred))) else (\<lambda>t. t))
         (((if ExpirationDate cred = '''' then jwt_New
            else (case accept_date env (ExpirationDate cred) of
                    None \<Rightarrow> jwt_New | Some e \<Rightarrow> jwt_New(''exp'' \<mapsto> CTime e)))
           (''nonce'' \<mapsto> CStr (uuid_at env (uuid_count s))))
          (''iss'' \<mapsto> claim_of_any (Issuer cred),
           ''iat'' \<mapsto> (case accept_date env (IssuanceDate cred) of
                         None \<Rightarrow> CAny ANil | Some d \<Rightarrow> CTime d),
           ''nbf'' \<mapsto> (case accept_date env (IssuanceDate cred) of
                         None \<Rightarrow> CAny ANil | Some d \<Rightarrow> CTime d)))))
     (''vc'' \<mapsto> CCred (stripped cred))"

text \<open>Where a failing \<open>JWTClaimSetFromVC\<close> stops: the error, and the store it leaves.\<close>

definition vc_error :: "env \<Rightarrow> credential \<Rightarrow> error" where
  "vc_error env cred =
     (if ExpirationDate cred \<noteq> '''' \<and> accept_date env (ExpirationDate cred) = None
      then Wrap ''setting exp value'' (InvalidClaimValue ''exp'')
      else (case Issuer cred of
              AStr i \<Rightarrow> Wrap ''setting iat value'' (InvalidClaimValue ''iat'')
            | _ \<Rightarrow> Wrap ''setting exp value'' (InvalidClaimValue ''iss'')))"

definition vc_fail_state :: "env \<Rightarrow> state \<Rightarrow> credential \<Rightarrow> state" where
  "vc_fail_state env s cred =
     (if ExpirationDate cred \<noteq> '''' \<and> accept_date env (ExpirationDate cred) = None
      then s else s\<lparr>uuid_count := Suc (uuid_count s)\<rparr>)"

section \<open>Calls in sequence\<close>

text \<open>
  \<open>ParseVerifiableCredentialFromJWT\<close> (lines 130 to 149): the token is parsed, its headers
  are read, and the credential is reconstructed from the claim set.
\<close>

definition ParseVerifiableCredentialFromJWT ::
  "env \<Rightarrow> state \<Rightarrow> compact \<Rightarrow> error + (headers \<times> token \<times> state \<times> credential)" where
  "ParseVerifiableCredentialFromJWT env s tok =
     (case jwt_Parse tok of
        Inl e \<Rightarrow> Inl (Wrap ''parsing credential token'' e)
      | Inr parsed \<Rightarrow>
          (case GetJWSHeaders tok of
             Inl e \<Rightarrow> Inl (Wrap ''getting JWT headers'' e)
           | Inr hdrs \<Rightarrow>
               (case ParseVerifiableCredentialFromToken env s parsed of
                  Inl e \<Rightarrow> Inl (Wrap ''parsing credential from token'' e)
                | Inr (s', cred) \<Rightarrow> Inr (hdrs, parsed, s', cred))))"

text \<open>
  Signing a credential and reconstructing it from the signed token, in the store the
  signing call leaves.
\<close>

definition roundtrip_vc :: "env \<Rightarrow> state \<Rightarrow> signer \<Rightarrow> credential \<Rightarrow> error + (state \<times> credential)" where
  "roundtrip_vc env s sg cred =
     (let out = SignVerifiableCredentialJWT env s sg cred in
      case result out of
        Inl e \<Rightarrow> Inl e
      | Inr signed \<Rightarrow>
          (case ParseVerifiableCredentialFromJWT env (out_state out) signed of
             Inl e \<Rightarrow> Inl e
           | Inr (hdrs, parsed, s', cred') \<Rightarrow> Inr (s', cred')))"

text \<open>
  A date of a credential that comes back as it is: the token library reads it as a time,
  that time reads back from the signed token, and printing what is read back gives the
  date again.
\<close>

definition date_canonical :: "env \<Rightarrow> string \<Rightarrow> bool" where
  "date_canonical env x =
     (case accept_date env x of
        None \<Rightarrow> False
      | Some d \<Rightarrow> (case read_numeric_date d of
                     None \<Rightarrow> False
                   | Some d' \<Rightarrow> format_rfc3339 env d' = x))"

text \<open>The dates of a credential's token read back exactly when the times they were read as do.\<close>

definition dates_read_back :: "env \<Rightarrow> credential \<Rightarrow> bool" where
  "dates_read_back env cred \<longleftrightarrow>
     (case accept_date env (IssuanceDate cred) of
        None \<Rightarrow> True | Some d \<Rightarrow> read_numeric_date d \<noteq> None) \<and>
     (ExpirationDate cred = '''' \<or>
      (case accept_date env (ExpirationDate cred) of
         None \<Rightarrow> True | Some d \<Rightarrow> read_numeric_date d \<noteq> None))"



text \<open>
  A caller of \<open>SignVerifiableCredentialJWT\<close>: it holds a credential in a variable of its
  own and shares the store. The callee receives a copy of the credential; the caller
  keeps its variable and sees the store the call leaves.
\<close>

record caller =
  cred_var :: credential
  store :: state

definition call_SignVerifiableCredentialJWT ::
  "env \<Rightarrow> signer \<Rightarrow> caller \<Rightarrow> caller \<times> (error + compact)" where
  "call_SignVerifiableCredentialJWT env sg fr =
     (let out = SignVerifiableCredentialJWT env (store fr) sg (cred_var fr)
      in (fr\<lparr>store := out_state out\<rparr>, result out))"


text \<open>The signed token of a claim set: what \<open>jwt.Sign\<close> returns once the primitive has signed.\<close>

definition signed_token :: "signer \<Rightarrow> token \<Rightarrow> string \<Rightarrow> compact" where
  "signed_token sg t g =
     (if readable t then Compact ((new_headers sg)\<lparr>hdr_alg := Some (resolve_alg sg)\<rparr>) (readback t) g
      else Unreadable ((new_headers sg)\<lparr>hdr_alg := Some (resolve_alg sg)\<rparr>) t g)"

text \<open>The nonce claim of a signed token.\<close>

definition nonce_of :: "compact \<Rightarrow> claim option" where
  "nonce_of c =
     (case c of
        Compact h t sg \<Rightarrow> t ''nonce''
      | Unreadable h t sg \<Rightarrow> t ''nonce''
      | Garbage x \<Rightarrow> None)"

text \<open>A series of signing calls, one after the other on the same store, and their results.\<close>

datatype request =
    SignVC signer credential
  | SignVP signer "JWTVVPParameters option" presentation

definition sign_request :: "env \<Rightarrow> state \<Rightarrow> request \<Rightarrow> compact outcome" where
  "sign_request env s r =
     (case r of
        SignVC sg cred \<Rightarrow> SignVerifiableCredentialJWT env s sg cred
      | SignVP sg ps pres \<Rightarrow> SignVerifiablePresentationJWT env s sg ps pres)"


section \<open>Sample data\<close>

definition sample_env :: env where
  "sample_env =
     \<lparr>accept_date = (\<lambda>x. if x = ''2024-01-01T00:00:00Z'' then Some 1704067200
                         else if x = ''2025-01-01T00:00:00Z'' then Some 1735689600
                         else if x = ''2024-01-01T01:00:00+01:00'' then Some 1704067200
                         else if x = ''1969-12-31T23:59:59Z'' then Some (- 1)
                         else None),
      format_rfc3339 = (\<lambda>d. if d = 1704067200 then ''2024-01-01T00:00:00Z''
                            else if d = 1735689600 then ''2025-01-01T00:00:00Z'' else ''other''),
      uuid_at = (\<lambda>n. replicate (Suc n) CHR ''u''),
      now = 1700000000,
      crypto_sign = (\<lambda>alg key. if alg = ''EdDSA'' then Some (''sig-'' @ key) else None)\<rparr>"

definition sample_state :: state where
  "sample_state =
     \<lparr>heap = [0 \<mapsto> [''id'' \<mapsto> AStr ''did:example:456'', ''name'' \<mapsto> AStr ''Alice'']],
      next_addr = 1, uuid_count = 0\<rparr>"

definition sample_signer :: signer where
  "sample_signer = \<lparr>SID = ''did:example:123'', KID = ''key-1'', ALG = ''Ed25519'', PrivateKey = ''sk''\<rparr>"

definition sample_cred :: credential where
  "sample_cred =
     \<lparr>ID = ''urn:uuid:abc'', Issuer = AStr ''did:example:123'',
      IssuanceDate = ''2024-01-01T00:00:00Z'', ExpirationDate = ''2025-01-01T00:00:00Z'',
      CredentialSubject = Some 0, Proof = None\<rparr>"

definition sample_pres :: presentation where
  "sample_pres =
     \<lparr>PID = ''urn:uuid:vp'', Holder = ''did:example:123'',
      VerifiableCredential = [VCToken ''a'', VCToken ''b'', VCToken ''c''], PProof = None\<rparr>"

definition sample_verifier :: verifier where
  "sample_verifier = \<lparr>VID = ''did:example:789'', VKID = ''key-9'', Verify = (\<lambda>c. None)\<rparr>"

text \<open>A presentation token with a given audience claim.\<close>

definition sample_jws :: "string list \<Rightarrow> compact" where
  "sample_jws aud =
     Compact \<lparr>hdr_kid = Some ''key-1'', hdr_alg = Some ''EdDSA''\<rparr>
       [''aud'' \<mapsto> CAud aud, ''iss'' \<mapsto> CStr ''did:example:123'',
        ''vp'' \<mapsto> CPres (sample_pres\<lparr>Holder := ''''\<rparr>)]
       ''sig-sk''"

text \<open>A credential check that rejects the token \<open>b\<close> and accepts every other credential.\<close>

definition sample_check :: "unit \<Rightarrow> vcany \<Rightarrow> error + bool" where
  "sample_check r c = (if c = VCToken ''b'' then Inr False else Inr True)"

text \<open>The error of the credential loop at index \<open>i\<close>, from what the check returned there.\<close>

definition loop_error :: "nat \<Rightarrow> error + bool \<Rightarrow> error" where
  "loop_error i r = (case r of Inl err \<Rightarrow> VerifyingCredential i err | Inr b \<Rightarrow> CredentialFailedSignature i)"

text \<open>
  A claim read as a string or as a time: an absent claim and a claim of another type read
  as the empty string and as no time.
\<close>

definition str_claim :: "token \<Rightarrow> string \<Rightarrow> string" where
  "str_claim t k = (case t k of Some (CStr x) \<Rightarrow> x | _ \<Rightarrow> '''')"

definition time_claim :: "token \<Rightarrow> string \<Rightarrow> int option" where
  "time_claim t k = (case t k of Some (CTime d) \<Rightarrow> Some d | _ \<Rightarrow> None)"

section \<open>Facts about the token library\<close>

lemma jwt_Set_accepts [simp]:
  "jwt_Set env ''iss'' (CStr x) t = Inr (t(''iss'' \<mapsto> CStr x))"
  "jwt_Set env ''jti'' (CStr x) t = Inr (t(''jti'' \<mapsto> CStr x))"
  "jwt_Set env ''sub'' (CStr x) t = Inr (t(''sub'' \<mapsto> CStr x))"
  "jwt_Set env ''nonce'' v t = Inr (t(''nonce'' \<mapsto> v))"
  "jwt_Set env ''vc'' v t = Inr (t(''vc'' \<mapsto> v))"
  "jwt_Set env ''vp'' v t = Inr (t(''vp'' \<mapsto> v))"
  "jwt_Set env ''aud'' (CAud a) t = Inr (t(''aud'' \<mapsto> CAud a))"
  "jwt_Set env ''iat'' (CInt n) t = Inr (t(''iat'' \<mapsto> CTime n))"
  "jwt_Set env ''nbf'' (CInt n) t = Inr (t(''nbf'' \<mapsto> CTime n))"
  "jwt_Set env ''exp'' (CInt n) t = Inr (t(''exp'' \<mapsto> CTime n))"
  by (simp_all add: jwt_Set_def)

lemma jwt_Set_date:
  "k = ''exp'' \<or> k = ''iat'' \<or> k = ''nbf'' \<Longrightarrow>
   jwt_Set env k (CStr x) t =
     (case accept_date env x of
        None \<Rightarrow> Inl (InvalidClaimValue k)
      | Some d \<Rightarrow> Inr (t(k \<mapsto> CTime d)))"
  by (auto simp add: jwt_Set_def)

section \<open>The steps of the presentation signer\<close>

lemma set_aud_eq:
  "set_aud env ps t =
     Inr (case ps of None \<Rightarrow> t
          | Some p \<Rightarrow> (case Audience p of None \<Rightarrow> t | Some a \<Rightarrow> t(''aud'' \<mapsto> CAud a)))"
  by (simp add: set_aud_def split: option.splits)

lemma set_iat_nbf_eq:
  "set_iat_nbf env t = Inr (t(''iat'' \<mapsto> CTime (now env), ''nbf'' \<mapsto> CTime (now env)))"
  by (simp add: set_iat_nbf_def Let_def)

lemma set_vp_exp_eq:
  "set_vp_exp env ps t =
     Inr (case ps of None \<Rightarrow> t
          | Some p \<Rightarrow> if Expiration p > 0 then t(''exp'' \<mapsto> CTime (Expiration p)) else t)"
  by (simp add: set_vp_exp_def split: option.splits)

lemma set_vp_jti_eq:
  "set_vp_jti env pres t =
     Inr (if PID pres \<noteq> '''' then (t(''jti'' \<mapsto> CStr (PID pres)), pres\<lparr>PID := ''''\<rparr>)
          else (t, pres))"
  by (simp add: set_vp_jti_def)

lemma set_vp_iss_eq:
  "set_vp_iss env sg pres t =
     (if Holder pres = '''' then Inr (t, pres)
      else if Holder pres \<noteq> SID sg then Inl HolderNotSigner
      else Inr (t(''iss'' \<mapsto> CStr (Holder pres)), pres\<lparr>Holder := ''''\<rparr>))"
  by (simp add: set_vp_iss_def)

lemma presentation_update_same:
  "PID p = x \<Longrightarrow> p\<lparr>PID := x\<rparr> = p"
  "Holder p = y \<Longrightarrow> p\<lparr>Holder := y\<rparr> = p"
  by auto

lemma vp_claims_eq:
  "vp_claims env s sg ps pres =
     (s\<lparr>uuid_count := Suc (uuid_count s)\<rparr>,
      (if Holder pres \<noteq> '''' \<and> Holder pres \<noteq> SID sg then Inl HolderNotSigner
       else Inr (((if Holder pres = '''' then (\<lambda>t. t) else (\<lambda>t. t(''iss'' \<mapsto> CStr (Holder pres))))
                  ((if PID pres = '''' then (\<lambda>t. t) else (\<lambda>t. t(''jti'' \<mapsto> CStr (PID pres))))
                    (vp_base env s ps)))
                 (''vp'' \<mapsto> CPres (pres\<lparr>PID := '''', Holder := ''''\<rparr>)))))"
  by (cases ps)
     (auto simp add: vp_claims_def vp_base_def set_aud_eq set_iat_nbf_eq uuid_New_def
        set_vp_exp_eq set_vp_jti_eq set_vp_iss_eq presentation_update_same)

section \<open>The steps of the credential claim set\<close>

lemma credential_update_same:
  "ID c = x \<Longrightarrow> c\<lparr>ID := x\<rparr> = c"
  "ExpirationDate c = y \<Longrightarrow> c\<lparr>ExpirationDate := y\<rparr> = c"
  by auto

lemma set_exp_eq:
  "set_exp env cred t =
     (if ExpirationDate cred = '''' then Inr (t, cred)
      else (case accept_date env (ExpirationDate cred) of
              None \<Rightarrow> Inl (Wrap ''setting exp value'' (InvalidClaimValue ''exp''))
            | Some e \<Rightarrow> Inr (t(''exp'' \<mapsto> CTime e), cred\<lparr>ExpirationDate := ''''\<rparr>)))"
  by (simp add: set_exp_def jwt_Set_date split: option.splits)

lemma set_iss_iat_eq:
  "set_iss_iat env cred t =
     (case Issuer cred of
        AStr i \<Rightarrow>
          (case accept_date env (IssuanceDate cred) of
             None \<Rightarrow> Inl (Wrap ''setting iat value'' (InvalidClaimValue ''iat''))
           | Some d \<Rightarrow> Inr (t(''iss'' \<mapsto> CStr i, ''iat'' \<mapsto> CTime d, ''nbf'' \<mapsto> CTime d),
                           cred\<lparr>Issuer := ANil, IssuanceDate := ''''\<rparr>))
      | _ \<Rightarrow> Inl (Wrap ''setting exp value'' (InvalidClaimValue ''iss'')))"
  by (cases "Issuer cred")
     (simp_all add: set_iss_iat_def claim_of_any_def jwt_Set_date Let_def jwt_Set_def
        split: option.splits)

lemma set_jti_eq:
  "set_jti env cred t =
     Inr (if ID cred \<noteq> '''' then (t(''jti'' \<mapsto> CStr (ID cred)), cred\<lparr>ID := ''''\<rparr>)
          else (t, cred))"
  by (simp add: set_jti_def Let_def)

lemma set_sub_eq:
  "set_sub env s cred t =
     Inr (if GetID s (CredentialSubject cred) \<noteq> ''''
          then (t(''sub'' \<mapsto> CStr (GetID s (CredentialSubject cred))),
                delete_key s (CredentialSubject cred) ''id'')
          else (t, s))"
  by (simp add: set_sub_def Let_def)

lemma GetID_uuid_count [simp]: "GetID (s\<lparr>uuid_count := n\<rparr>) subj = GetID s subj"
  by (simp add: GetID_def split: option.splits)

lemma JWTClaimSetFromVC_eq:
  "JWTClaimSetFromVC env s cred =
     (if \<not> vc_claims_ok env cred then (vc_fail_state env s cred, Inl (vc_error env cred))
      else (vc_state s cred, Inr (vc_token env s cred)))"
  by (cases "Issuer cred")
     (auto simp add: JWTClaimSetFromVC_def vc_claims_ok_def vc_fail_state_def vc_error_def
        vc_state_def vc_token_def stripped_def set_exp_eq set_iss_iat_eq set_jti_eq set_sub_eq
        uuid_New_def credential_update_same claim_of_any_def
        split: option.splits)

section \<open>What a signed token reads back as\<close>

lemma read_numeric_date_small:
  "0 \<le> d \<Longrightarrow> d \<le> 2 ^ 53 \<Longrightarrow> read_numeric_date d = Some d"
  by (simp add: read_numeric_date_def f64_round_def)

lemma read_numeric_date_negative: "d < 0 \<Longrightarrow> read_numeric_date d = None"
  by (simp add: read_numeric_date_def)

lemma readback_other [simp]:
  "readback t ''vc'' = t ''vc''"
  "readback t ''vp'' = t ''vp''"
  "readback t ''iss'' = t ''iss''"
  "readback t ''jti'' = t ''jti''"
  "readback t ''sub'' = t ''sub''"
  "readback t ''aud'' = t ''aud''"
  "readback t ''nonce'' = t ''nonce''"
  by (simp_all add: readback_def)

lemma readback_dates:
  "readback t ''iat'' = read_claim (t ''iat'')"
  "readback t ''exp'' = read_claim (t ''exp'')"
  "readback t ''nbf'' = read_claim (t ''nbf'')"
  by (simp_all add: readback_def)


lemma str_claim_readback [simp]:
  "str_claim (readback t) ''jti'' = str_claim t ''jti''"
  "str_claim (readback t) ''iss'' = str_claim t ''iss''"
  "str_claim (readback t) ''sub'' = str_claim t ''sub''"
  by (simp_all add: str_claim_def)

lemma time_claim_readback:
  "readable_claim (t k) \<Longrightarrow>
     time_claim (\<lambda>k'. read_claim (t k')) k =
       (case time_claim t k of None \<Rightarrow> None | Some d \<Rightarrow> read_numeric_date d)"
  by (auto simp add: time_claim_def read_claim_def readable_claim_def
        split: option.splits claim.splits)

lemma time_claim_readback_dates:
  "readable t \<Longrightarrow>
     time_claim (readback t) ''iat'' =
       (case time_claim t ''iat'' of None \<Rightarrow> None | Some d \<Rightarrow> read_numeric_date d)"
  "readable t \<Longrightarrow>
     time_claim (readback t) ''exp'' =
       (case time_claim t ''exp'' of None \<Rightarrow> None | Some d \<Rightarrow> read_numeric_date d)"
  by (auto simp add: time_claim_def readback_def read_claim_def readable_def readable_claim_def
        split: option.splits claim.splits)

lemma nonce_of_signed_token [simp]: "nonce_of (signed_token sg t g) = t ''nonce''"
  by (simp add: nonce_of_def signed_token_def)

lemma jwt_Sign_eq:
  "jwt_Sign env t (resolve_alg sg) (PrivateKey sg) (new_headers sg) =
     (case crypto_sign env (resolve_alg sg) (PrivateKey sg) of
        None \<Rightarrow> Inl SignatureFailure
      | Some g \<Rightarrow> Inr (signed_token sg t g))"
  by (simp add: jwt_Sign_def signed_token_def split: option.splits)


text \<open>The signing calls in closed form.\<close>

lemma sign_vc_eq:
  "SignVerifiableCredentialJWT env s sg cred =
     (if IsEmpty cred then \<lparr>out_state = s, signer_invoked = False, result = Inl CredentialEmpty\<rparr>
      else if Proof cred \<noteq> None
        then \<lparr>out_state = s, signer_invoked = False, result = Inl CredentialHasProof\<rparr>
      else if \<not> vc_claims_ok env cred
        then \<lparr>out_state = vc_fail_state env s cred, signer_invoked = False,
              result = Inl (vc_error env cred)\<rparr>
      else \<lparr>out_state = vc_state s cred, signer_invoked = True,
            result = (case crypto_sign env (resolve_alg sg) (PrivateKey sg) of
                        None \<Rightarrow> Inl (Wrap ''signing JWT credential'' SignatureFailure)
                      | Some g \<Rightarrow> Inr (signed_token sg (vc_token env s cred) g))\<rparr>)"
  by (simp add: SignVerifiableCredentialJWT_def JWTClaimSetFromVC_eq jwt_Sign_eq
        split: option.splits)





section \<open>Preconditions of signing\<close>

text \<open>
  C7. Signing a credential fails for an empty credential and for one that carries a
  proof; signing a presentation fails for an empty presentation, for one that carries a
  proof, and for one whose holder is non-empty and is not the signer's identity. In each
  of these cases the signing primitive is not invoked.
\<close>

theorem sign_preconditions:
  "(IsEmpty cred \<or> Proof cred \<noteq> None \<longrightarrow>
      (\<exists>e. result (SignVerifiableCredentialJWT env s sg cred) = Inl e) \<and>
      \<not> signer_invoked (SignVerifiableCredentialJWT env s sg cred)) \<and>
   (PIsEmpty pres \<or> PProof pres \<noteq> None \<or> (Holder pres \<noteq> '''' \<and> Holder pres \<noteq> SID sg) \<longrightarrow>
      (\<exists>e. result (SignVerifiablePresentationJWT env s sg ps pres) = Inl e) \<and>
      \<not> signer_invoked (SignVerifiablePresentationJWT env s sg ps pres))"
proof (intro conjI impI)
  assume "IsEmpty cred \<or> Proof cred \<noteq> None"
  then show "\<exists>e. result (SignVerifiableCredentialJWT env s sg cred) = Inl e"
    and "\<not> signer_invoked (SignVerifiableCredentialJWT env s sg cred)"
    by (auto simp add: SignVerifiableCredentialJWT_def)
next
  assume h: "PIsEmpty pres \<or> PProof pres \<noteq> None \<or> (Holder pres \<noteq> '''' \<and> Holder pres \<noteq> SID sg)"
  show "\<exists>e. result (SignVerifiablePresentationJWT env s sg ps pres) = Inl e"
    using h by (auto simp add: SignVerifiablePresentationJWT_def vp_claims_eq)
  show "\<not> signer_invoked (SignVerifiablePresentationJWT env s sg ps pres)"
    using h by (auto simp add: SignVerifiablePresentationJWT_def vp_claims_eq)
qed

theorem sign_preconditions_witness:
  "(IsEmpty zero_credential \<or> Proof zero_credential \<noteq> None) \<and>
   result (SignVerifiableCredentialJWT sample_env sample_state sample_signer zero_credential)
     = Inl CredentialEmpty \<and>
   \<not> signer_invoked (SignVerifiableCredentialJWT sample_env sample_state sample_signer zero_credential) \<and>
   (Holder (sample_pres\<lparr>Holder := ''did:example:other''\<rparr>) \<noteq> '''' \<and>
    Holder (sample_pres\<lparr>Holder := ''did:example:other''\<rparr>) \<noteq> SID sample_signer) \<and>
   result (SignVerifiablePresentationJWT sample_env sample_state sample_signer None
             (sample_pres\<lparr>Holder := ''did:example:other''\<rparr>)) = Inl HolderNotSigner \<and>
   \<not> signer_invoked (SignVerifiablePresentationJWT sample_env sample_state sample_signer None
             (sample_pres\<lparr>Holder := ''did:example:other''\<rparr>))"
proof -
  have a: "IsEmpty zero_credential"
    by (simp add: IsEmpty_def zero_credential_def)
  have b: "Holder (sample_pres\<lparr>Holder := ''did:example:other''\<rparr>) \<noteq> '''' \<and>
           Holder (sample_pres\<lparr>Holder := ''did:example:other''\<rparr>) \<noteq> SID sample_signer"
    by (simp add: sample_signer_def)
  have c: "result (SignVerifiableCredentialJWT sample_env sample_state sample_signer zero_credential)
             = Inl CredentialEmpty"
    using a by (simp add: SignVerifiableCredentialJWT_def)
  have d: "result (SignVerifiablePresentationJWT sample_env sample_state sample_signer None
             (sample_pres\<lparr>Holder := ''did:example:other''\<rparr>)) = Inl HolderNotSigner"
    by (simp add: SignVerifiablePresentationJWT_def vp_claims_eq PIsEmpty_def sample_pres_def
          sample_signer_def)
  show ?thesis
    using a b c d
      sign_preconditions [of zero_credential sample_env sample_state sample_signer
        "sample_pres\<lparr>Holder := ''did:example:other''\<rparr>" None]
    by blast
qed

section \<open>Verifying a presentation: audience and credential order\<close>

lemma audMatch_iff: "audMatch v auds \<longleftrightarrow> VID v \<in> set auds \<or> VKID v \<in> set auds"
  by (induction auds) auto

lemma verify_credentials_all_ok:
  "\<forall>c \<in> set cs. f c = Inr True \<Longrightarrow> verify_credentials f k cs = ([k..<k + length cs], None)"
proof (induction cs arbitrary: k)
  case Nil
  then show ?case by simp
next
  case (Cons c cs)
  then have "verify_credentials f (Suc k) cs = ([Suc k..<Suc k + length cs], None)"
    by simp
  with Cons.prems show ?case
    by (simp add: upt_rec)
qed

lemma verify_credentials_first_failure:
  assumes "i < length cs" and "\<forall>j<i. f (cs ! j) = Inr True" and "f (cs ! i) \<noteq> Inr True"
  shows "verify_credentials f k cs =
           ([k..<k + Suc i],
            Some (loop_error (k + i) (f (cs ! i))))"
  using assms
proof (induction cs arbitrary: k i)
  case Nil
  then show ?case by simp
next
  case (Cons c cs)
  show ?case
  proof (cases i)
    case 0
    with Cons.prems show ?thesis
      by (auto simp add: loop_error_def split: sum.splits)
  next
    case (Suc n)
    with Cons.prems have c: "f c = Inr True"
      by auto
    from Suc Cons.prems have "n < length cs" "\<forall>j<n. f (cs ! j) = Inr True" "f (cs ! n) \<noteq> Inr True"
      by auto
    then have "verify_credentials f (Suc k) cs =
        ([Suc k..<Suc k + Suc n],
         Some (loop_error (Suc k + n) (f (cs ! n))))"
      by (rule Cons.IH)
    moreover have "[k..<k + Suc i] = k # [Suc k..<Suc k + Suc n]"
      using Suc by (simp add: upt_conv_Cons)
    ultimately show ?thesis
      using c Suc by simp
  qed
qed

lemma verify_credentials_ok_iff:
  "snd (verify_credentials f k cs) = None \<longleftrightarrow> (\<forall>c \<in> set cs. f c = Inr True)"
proof (induction cs arbitrary: k)
  case Nil
  then show ?case by simp
next
  case (Cons c cs)
  obtain checked e where r: "verify_credentials f (Suc k) cs = (checked, e)"
    by (cases "verify_credentials f (Suc k) cs")
  with Cons.IH [of "Suc k"] have "e = None \<longleftrightarrow> (\<forall>c \<in> set cs. f c = Inr True)"
    by simp
  with r show ?case
    by (cases "f c") auto
qed

text \<open>
  C4. Once the outer signature is verified and the token parsed: a non-empty audience
  list that holds neither the verifier's identity nor its key-id makes verification fail
  with the audience-mismatch error, which carries the identity, the key-id and the
  audience list; with an empty audience list the outcome is that of the credential loop
  alone, whatever the verifier's identity and key-id are.
\<close>

theorem audience_check:
  assumes "Verify v tok = None"
    and "ParseVerifiablePresentationFromJWT tok = Inr (hdrs, vpToken, vp)"
  shows "(token_Audience vpToken \<noteq> [] \<and> VID v \<notin> set (token_Audience vpToken) \<and>
          VKID v \<notin> set (token_Audience vpToken) \<longrightarrow>
            VerifyVerifiablePresentationJWT v vcs (Some r) tok =
              ([], Inl (AudienceMismatch (VID v) (VKID v) (token_Audience vpToken)))) \<and>
         (token_Audience vpToken = [] \<longrightarrow>
            VerifyVerifiablePresentationJWT v vcs (Some r) tok =
              (case verify_credentials (vcs r) 0 (VerifiableCredential vp) of
                 (checked, Some err) \<Rightarrow> (checked, Inl err)
               | (checked, None) \<Rightarrow> (checked, Inr (hdrs, vpToken, vp))))"
  using assms by (simp add: VerifyVerifiablePresentationJWT_def audMatch_iff)

lemma sample_jws_parse:
  "ParseVerifiablePresentationFromJWT (sample_jws aud) =
     Inr (\<lparr>hdr_kid = Some ''key-1'', hdr_alg = Some ''EdDSA''\<rparr>,
          [''aud'' \<mapsto> CAud aud, ''iss'' \<mapsto> CStr ''did:example:123'',
           ''vp'' \<mapsto> CPres (sample_pres\<lparr>Holder := ''''\<rparr>)],
          sample_pres)"
  by (simp add: ParseVerifiablePresentationFromJWT_def sample_jws_def jwt_Parse_def
        GetJWSHeaders_def decode_presentation_def sample_pres_def)

lemma sample_jws_audience:
  "token_Audience [''aud'' \<mapsto> CAud aud, ''iss'' \<mapsto> x, ''vp'' \<mapsto> y] = aud"
  by (simp add: token_Audience_def)

theorem audience_check_witness:
  "VerifyVerifiablePresentationJWT sample_verifier sample_check (Some ())
     (sample_jws [''did:example:other'']) =
     ([], Inl (AudienceMismatch ''did:example:789'' ''key-9'' [''did:example:other''])) \<and>
   VerifyVerifiablePresentationJWT sample_verifier (\<lambda>r c. Inr True) (Some ()) (sample_jws []) =
     ([0, 1, 2],
      Inr (\<lparr>hdr_kid = Some ''key-1'', hdr_alg = Some ''EdDSA''\<rparr>,
           [''aud'' \<mapsto> CAud [], ''iss'' \<mapsto> CStr ''did:example:123'',
            ''vp'' \<mapsto> CPres (sample_pres\<lparr>Holder := ''''\<rparr>)],
           sample_pres))"
proof -
  have v: "Verify sample_verifier tok = None" for tok
    by (simp add: sample_verifier_def)
  have "VerifyVerifiablePresentationJWT sample_verifier sample_check (Some ())
     (sample_jws [''did:example:other'']) =
     ([], Inl (AudienceMismatch ''did:example:789'' ''key-9'' [''did:example:other'']))"
    using audience_check [OF v sample_jws_parse, of "[''did:example:other'']" sample_check "()"]
    by (simp add: sample_jws_audience sample_verifier_def)
  moreover have "VerifyVerifiablePresentationJWT sample_verifier (\<lambda>r c. Inr True) (Some ())
      (sample_jws []) =
     ([0, 1, 2],
      Inr (\<lparr>hdr_kid = Some ''key-1'', hdr_alg = Some ''EdDSA''\<rparr>,
           [''aud'' \<mapsto> CAud [], ''iss'' \<mapsto> CStr ''did:example:123'',
            ''vp'' \<mapsto> CPres (sample_pres\<lparr>Holder := ''''\<rparr>)],
           sample_pres))"
    using audience_check [OF v sample_jws_parse, of "[]" "\<lambda>r c. Inr True" "()"]
    by (simp add: sample_jws_audience sample_pres_def numeral_2_eq_2)
  ultimately show ?thesis by simp
qed

text \<open>
  C3. Once the outer signature is verified, the token parsed and the audience check
  passed: the embedded credentials are checked in presentation order; when the credential
  at index \<open>i\<close> is the first that fails, the indices checked are exactly \<open>0, \<dots>, i\<close>
  and the error carries \<open>i\<close> and the cause; and the call succeeds exactly when every
  embedded credential verifies.
\<close>

theorem credentials_checked_in_order:
  assumes "Verify v tok = None"
    and "ParseVerifiablePresentationFromJWT tok = Inr (hdrs, vpToken, vp)"
    and "token_Audience vpToken = [] \<or> audMatch v (token_Audience vpToken)"
  shows "(i < length (VerifiableCredential vp) \<and>
          (\<forall>j<i. vcs r (VerifiableCredential vp ! j) = Inr True) \<and>
          vcs r (VerifiableCredential vp ! i) \<noteq> Inr True \<longrightarrow>
            VerifyVerifiablePresentationJWT v vcs (Some r) tok =
              ([0..<Suc i],
               Inl (loop_error i (vcs r (VerifiableCredential vp ! i))))) \<and>
         ((\<exists>x. snd (VerifyVerifiablePresentationJWT v vcs (Some r) tok) = Inr x) \<longleftrightarrow>
            (\<forall>c \<in> set (VerifiableCredential vp). vcs r c = Inr True))"
proof (intro conjI impI)
  assume "i < length (VerifiableCredential vp) \<and>
          (\<forall>j<i. vcs r (VerifiableCredential vp ! j) = Inr True) \<and>
          vcs r (VerifiableCredential vp ! i) \<noteq> Inr True"
  then have "verify_credentials (vcs r) 0 (VerifiableCredential vp) =
      ([0..<0 + Suc i],
       Some (loop_error (0 + i) (vcs r (VerifiableCredential vp ! i))))"
    by (intro verify_credentials_first_failure) auto
  with assms show "VerifyVerifiablePresentationJWT v vcs (Some r) tok =
              ([0..<Suc i],
               Inl (loop_error i (vcs r (VerifiableCredential vp ! i))))"
    by (auto simp add: VerifyVerifiablePresentationJWT_def)
next
  obtain checked e where l: "verify_credentials (vcs r) 0 (VerifiableCredential vp) = (checked, e)"
    by (cases "verify_credentials (vcs r) 0 (VerifiableCredential vp)")
  have "e = None \<longleftrightarrow> (\<forall>c \<in> set (VerifiableCredential vp). vcs r c = Inr True)"
    using verify_credentials_ok_iff [of "vcs r" 0 "VerifiableCredential vp"] l by simp
  with assms l show "(\<exists>x. snd (VerifyVerifiablePresentationJWT v vcs (Some r) tok) = Inr x) \<longleftrightarrow>
            (\<forall>c \<in> set (VerifiableCredential vp). vcs r c = Inr True)"
    by (cases e) (auto simp add: VerifyVerifiablePresentationJWT_def)
qed

theorem credentials_checked_in_order_witness:
  "VerifyVerifiablePresentationJWT sample_verifier sample_check (Some ()) (sample_jws []) =
     ([0, 1], Inl (CredentialFailedSignature 1))"
proof -
  have v: "Verify sample_verifier (sample_jws []) = None"
    by (simp add: sample_verifier_def)
  have a: "token_Audience [''aud'' \<mapsto> CAud [], ''iss'' \<mapsto> CStr ''did:example:123'',
           ''vp'' \<mapsto> CPres (sample_pres\<lparr>Holder := ''''\<rparr>)] = [] \<or>
        audMatch sample_verifier (token_Audience [''aud'' \<mapsto> CAud [],
           ''iss'' \<mapsto> CStr ''did:example:123'',
           ''vp'' \<mapsto> CPres (sample_pres\<lparr>Holder := ''''\<rparr>)])"
    by (simp add: sample_jws_audience)
  have h: "1 < length (VerifiableCredential sample_pres) \<and>
      (\<forall>j<1. sample_check () (VerifiableCredential sample_pres ! j) = Inr True) \<and>
      sample_check () (VerifiableCredential sample_pres ! 1) \<noteq> Inr True"
    by (simp add: sample_pres_def sample_check_def loop_error_def)
  have u: "[0..<Suc 1] = [0, 1]"
    by (simp add: upt_rec)
  show ?thesis
    using credentials_checked_in_order [OF v sample_jws_parse a, of 1 sample_check "()"] h u
    by (simp add: sample_pres_def sample_check_def loop_error_def)
qed

section \<open>Decoding a presentation: the issuer\<close>

text \<open>
  C10. For a token whose \<open>vp\<close> claim decodes, \<open>ParseVerifiablePresentationFromJWT\<close>
  fails exactly when the \<open>iss\<close> claim is absent or is not a string; when the \<open>iss\<close>
  claim is the empty string, parsing succeeds and the holder of the result is the empty
  string.
\<close>

theorem empty_issuer_accepted:
  assumes "parsed ''vp'' = Some vpClaim"
    and "decode_presentation vpClaim = Inr pres"
  shows "((\<exists>e. ParseVerifiablePresentationFromJWT (Compact hdrs parsed sg) = Inl e) \<longleftrightarrow>
            (\<forall>x. parsed ''iss'' \<noteq> Some (CStr x))) \<and>
         (parsed ''iss'' = Some (CStr '''') \<longrightarrow>
            (\<exists>p. ParseVerifiablePresentationFromJWT (Compact hdrs parsed sg) = Inr (hdrs, parsed, p) \<and>
                 Holder p = ''''))"
proof (cases "parsed ''iss''")
  case None
  with assms show ?thesis
    by (simp add: ParseVerifiablePresentationFromJWT_def jwt_Parse_def GetJWSHeaders_def)
next
  case (Some iss)
  with assms show ?thesis
    by (cases iss)
       (auto simp add: ParseVerifiablePresentationFromJWT_def jwt_Parse_def GetJWSHeaders_def
          Let_def split: option.splits claim.splits)
qed

theorem empty_issuer_accepted_witness:
  "\<exists>p. ParseVerifiablePresentationFromJWT
          (Compact \<lparr>hdr_kid = None, hdr_alg = Some ''EdDSA''\<rparr>
             [''iss'' \<mapsto> CStr '''', ''vp'' \<mapsto> CPres sample_pres] ''sig'') =
          Inr (\<lparr>hdr_kid = None, hdr_alg = Some ''EdDSA''\<rparr>,
               [''iss'' \<mapsto> CStr '''', ''vp'' \<mapsto> CPres sample_pres], p) \<and>
        Holder p = ''''"
proof -
  have a: "[''iss'' \<mapsto> CStr '''', ''vp'' \<mapsto> CPres sample_pres] ''vp'' = Some (CPres sample_pres)"
    by simp
  have b: "decode_presentation (CPres sample_pres) = Inr sample_pres"
    by (simp add: decode_presentation_def)
  have c: "[''iss'' \<mapsto> CStr '''', ''vp'' \<mapsto> CPres sample_pres] ''iss'' = Some (CStr '''')"
    by simp
  show ?thesis
    using empty_issuer_accepted [of "[''iss'' \<mapsto> CStr '''', ''vp'' \<mapsto> CPres sample_pres]"
        "CPres sample_pres" sample_pres "\<lparr>hdr_kid = None, hdr_alg = Some ''EdDSA''\<rparr>" "''sig''", OF a b] c
    by blast
qed

section \<open>Promoted fields leave the embedded object\<close>



lemma subject_id_uuid_count [simp]: "subject_id (s\<lparr>uuid_count := n\<rparr>) c = subject_id s c"
  by (simp add: subject_id_def split: option.splits)

lemma vc_token_lookup:
  "vc_token env s cred ''vc'' = Some (CCred (stripped cred))"
  "vc_token env s cred ''sub'' =
     (if GetID s (CredentialSubject cred) \<noteq> '''' then Some (CStr (GetID s (CredentialSubject cred)))
      else None)"
  "vc_token env s cred ''jti'' = (if ID cred \<noteq> '''' then Some (CStr (ID cred)) else None)"
  "vc_token env s cred ''iss'' = Some (claim_of_any (Issuer cred))"
  "vc_token env s cred ''nonce'' = Some (CStr (uuid_at env (uuid_count s)))"
  by (simp_all add: vc_token_def jwt_New_def split: option.splits)

lemma vc_token_dates:
  "vc_token env s cred ''iat'' =
     Some (case accept_date env (IssuanceDate cred) of None \<Rightarrow> CAny ANil | Some d \<Rightarrow> CTime d)"
  "vc_token env s cred ''exp'' =
     (if ExpirationDate cred = '''' then None
      else map_option CTime (accept_date env (ExpirationDate cred)))"
  by (simp_all add: vc_token_def jwt_New_def split: option.splits)

lemma stripped_fields [simp]:
  "ID (stripped c) = ''''" "Issuer (stripped c) = ANil" "IssuanceDate (stripped c) = ''''"
  "ExpirationDate (stripped c) = ''''" "CredentialSubject (stripped c) = CredentialSubject c"
  "Proof (stripped c) = Proof c"
  by (simp_all add: stripped_def)



lemma sample_claims_ok: "vc_claims_ok sample_env sample_cred"
  by (simp add: vc_claims_ok_def sample_env_def sample_cred_def)

lemma sample_GetID: "GetID sample_state (CredentialSubject sample_cred) = ''did:example:456''"
  by (simp add: GetID_def sample_state_def sample_cred_def)






section \<open>Reconstructing a credential\<close>

lemma overlay_jti_eq:
  "overlay_jti t c = (if str_claim t ''jti'' \<noteq> '''' then c\<lparr>ID := str_claim t ''jti''\<rparr> else c)"
  by (simp add: overlay_jti_def str_claim_def split: option.splits claim.splits)

lemma overlay_iat_eq:
  "overlay_iat env t c =
     (case time_claim t ''iat'' of None \<Rightarrow> c | Some d \<Rightarrow> c\<lparr>IssuanceDate := format_rfc3339 env d\<rparr>)"
  by (simp add: overlay_iat_def time_claim_def split: option.splits claim.splits)

lemma overlay_exp_eq:
  "overlay_exp env t c =
     (case time_claim t ''exp'' of None \<Rightarrow> c | Some d \<Rightarrow> c\<lparr>ExpirationDate := format_rfc3339 env d\<rparr>)"
  by (simp add: overlay_exp_def time_claim_def split: option.splits claim.splits)

lemma overlay_iss_eq:
  "overlay_iss t c =
     (if str_claim t ''iss'' \<noteq> '''' then c\<lparr>Issuer := AStr (str_claim t ''iss'')\<rparr> else c)"
  by (simp add: overlay_iss_def str_claim_def split: option.splits claim.splits)

lemma overlay_sub_empty:
  "str_claim t ''sub'' = '''' \<Longrightarrow> overlay_sub t s c = (s, c)"
  by (simp add: overlay_sub_def str_claim_def split: option.splits claim.splits)

lemma overlay_sub_set:
  "str_claim t ''sub'' \<noteq> '''' \<Longrightarrow>
     overlay_sub t s c =
       (case CredentialSubject c of
          None \<Rightarrow> (store_key (snd (alloc s Map.empty)) (next_addr s) ''id'' (AStr (str_claim t ''sub'')),
                   c\<lparr>CredentialSubject := Some (next_addr s)\<rparr>)
        | Some a \<Rightarrow> (store_key s a ''id'' (AStr (str_claim t ''sub'')), c))"
  by (auto simp add: overlay_sub_def str_claim_def alloc_def split: option.splits claim.splits)

lemma overlay_sub_scalar:
  "ID (snd (overlay_sub t s c)) = ID c"
  "Issuer (snd (overlay_sub t s c)) = Issuer c"
  "IssuanceDate (snd (overlay_sub t s c)) = IssuanceDate c"
  "ExpirationDate (snd (overlay_sub t s c)) = ExpirationDate c"
  by (cases "str_claim t ''sub'' = ''''";
      simp add: overlay_sub_empty overlay_sub_set split: option.splits)+

lemma subject_id_store_key:
  "CredentialSubject c = Some a \<Longrightarrow> subject_id (store_key s a ''id'' v) c = Some v"
  by (simp add: subject_id_def store_key_def)

lemma overlay_sub_subject_id:
  "subject_id (fst (overlay_sub t s c)) (snd (overlay_sub t s c)) =
     (if str_claim t ''sub'' \<noteq> '''' then Some (AStr (str_claim t ''sub'')) else subject_id s c)"
  by (cases "str_claim t ''sub'' = ''''")
     (simp_all add: overlay_sub_empty overlay_sub_set subject_id_store_key split: option.splits)

lemma subject_id_cong:
  "CredentialSubject c = CredentialSubject c' \<Longrightarrow> subject_id s c = subject_id s c'"
  by (simp add: subject_id_def)

lemma overlay_subject [simp]:
  "CredentialSubject (overlay_jti t c) = CredentialSubject c"
  "CredentialSubject (overlay_iat env t c) = CredentialSubject c"
  "CredentialSubject (overlay_exp env t c) = CredentialSubject c"
  "CredentialSubject (overlay_iss t c) = CredentialSubject c"
  by (simp_all add: overlay_jti_eq overlay_iat_eq overlay_exp_eq overlay_iss_eq split: option.splits)

text \<open>The credential after the four overlays on its own fields.\<close>

lemma overlaid_fields:
  "ID (overlay_iss t (overlay_exp env t (overlay_iat env t (overlay_jti t c)))) =
     (if str_claim t ''jti'' \<noteq> '''' then str_claim t ''jti'' else ID c)"
  "IssuanceDate (overlay_iss t (overlay_exp env t (overlay_iat env t (overlay_jti t c)))) =
     (case time_claim t ''iat'' of None \<Rightarrow> IssuanceDate c | Some d \<Rightarrow> format_rfc3339 env d)"
  "ExpirationDate (overlay_iss t (overlay_exp env t (overlay_iat env t (overlay_jti t c)))) =
     (case time_claim t ''exp'' of None \<Rightarrow> ExpirationDate c | Some d \<Rightarrow> format_rfc3339 env d)"
  "Issuer (overlay_iss t (overlay_exp env t (overlay_iat env t (overlay_jti t c)))) =
     (if str_claim t ''iss'' \<noteq> '''' then AStr (str_claim t ''iss'') else Issuer c)"
  by (simp_all add: overlay_jti_eq overlay_iat_eq overlay_exp_eq overlay_iss_eq split: option.splits)

lemma parse_credential_decoded:
  assumes "t ''vc'' = Some v" and "decode_credential s v = Inr (s1, c)"
  shows "\<exists>s2 c'. ParseVerifiableCredentialFromToken env s t = Inr (s2, c') \<and>
           ID c' = (if str_claim t ''jti'' \<noteq> '''' then str_claim t ''jti'' else ID c) \<and>
           IssuanceDate c' =
             (case time_claim t ''iat'' of None \<Rightarrow> IssuanceDate c | Some d \<Rightarrow> format_rfc3339 env d) \<and>
           ExpirationDate c' =
             (case time_claim t ''exp'' of None \<Rightarrow> ExpirationDate c | Some d \<Rightarrow> format_rfc3339 env d) \<and>
           Issuer c' = (if str_claim t ''iss'' \<noteq> '''' then AStr (str_claim t ''iss'') else Issuer c) \<and>
           subject_id s2 c' =
             (if str_claim t ''sub'' \<noteq> '''' then Some (AStr (str_claim t ''sub''))
              else subject_id s1 c)"
proof -
  define c4 where "c4 = overlay_iss t (overlay_exp env t (overlay_iat env t (overlay_jti t c)))"
  have p: "ParseVerifiableCredentialFromToken env s t = Inr (overlay_sub t s1 c4)"
    using assms by (simp add: ParseVerifiableCredentialFromToken_def c4_def)
  have q: "subject_id s1 c4 = subject_id s1 c"
    by (rule subject_id_cong) (simp add: c4_def)
  show ?thesis
  proof (intro exI [of _ "fst (overlay_sub t s1 c4)"] exI [of _ "snd (overlay_sub t s1 c4)"] conjI)
    show "ParseVerifiableCredentialFromToken env s t =
            Inr (fst (overlay_sub t s1 c4), snd (overlay_sub t s1 c4))"
      by (simp add: p)
  qed (simp_all add: overlay_sub_scalar overlay_sub_subject_id q, simp_all add: c4_def overlaid_fields)
qed

text \<open>
  C6, as the code has it. \<open>ParseVerifiableCredentialFromToken\<close> fails exactly when the
  \<open>vc\<close> claim is absent or cannot be decoded into a credential. Once the claim is decoded
  the call never fails, and each of \<open>jti\<close>, \<open>iat\<close>, \<open>exp\<close>, \<open>iss\<close>, \<open>sub\<close> is laid over the
  decoded credential only when it is present with the expected type (and, for the
  strings, not empty); otherwise the decoded value stays.
\<close>

theorem parse_credential_lenient:
  "((\<exists>e. ParseVerifiableCredentialFromToken env s t = Inl e) \<longleftrightarrow>
      (t ''vc'' = None \<or> (\<exists>v e. t ''vc'' = Some v \<and> decode_credential s v = Inl e))) \<and>
   (t ''vc'' = Some v \<and> decode_credential s v = Inr (s1, c) \<longrightarrow>
      (\<exists>s2 c'. ParseVerifiableCredentialFromToken env s t = Inr (s2, c') \<and>
         ID c' = (if str_claim t ''jti'' \<noteq> '''' then str_claim t ''jti'' else ID c) \<and>
         IssuanceDate c' =
           (case time_claim t ''iat'' of None \<Rightarrow> IssuanceDate c | Some d \<Rightarrow> format_rfc3339 env d) \<and>
         ExpirationDate c' =
           (case time_claim t ''exp'' of None \<Rightarrow> ExpirationDate c | Some d \<Rightarrow> format_rfc3339 env d) \<and>
         Issuer c' = (if str_claim t ''iss'' \<noteq> '''' then AStr (str_claim t ''iss'') else Issuer c) \<and>
         subject_id s2 c' =
           (if str_claim t ''sub'' \<noteq> '''' then Some (AStr (str_claim t ''sub''))
            else subject_id s1 c)))"
proof (intro conjI impI)
  show "(\<exists>e. ParseVerifiableCredentialFromToken env s t = Inl e) \<longleftrightarrow>
      (t ''vc'' = None \<or> (\<exists>v e. t ''vc'' = Some v \<and> decode_credential s v = Inl e))"
    by (auto simp add: ParseVerifiableCredentialFromToken_def split: option.splits sum.splits)
next
  assume "t ''vc'' = Some v \<and> decode_credential s v = Inr (s1, c)"
  then show "\<exists>s2 c'. ParseVerifiableCredentialFromToken env s t = Inr (s2, c') \<and>
         ID c' = (if str_claim t ''jti'' \<noteq> '''' then str_claim t ''jti'' else ID c) \<and>
         IssuanceDate c' =
           (case time_claim t ''iat'' of None \<Rightarrow> IssuanceDate c | Some d \<Rightarrow> format_rfc3339 env d) \<and>
         ExpirationDate c' =
           (case time_claim t ''exp'' of None \<Rightarrow> ExpirationDate c | Some d \<Rightarrow> format_rfc3339 env d) \<and>
         Issuer c' = (if str_claim t ''iss'' \<noteq> '''' then AStr (str_claim t ''iss'') else Issuer c) \<and>
         subject_id s2 c' =
           (if str_claim t ''sub'' \<noteq> '''' then Some (AStr (str_claim t ''sub''))
            else subject_id s1 c)"
    using parse_credential_decoded [of t v s s1 c env] by simp
qed

theorem parse_credential_lenient_witness:
  "[''vc'' \<mapsto> CCred zero_credential, ''jti'' \<mapsto> CInt 7, ''sub'' \<mapsto> CStr ''did:example:456'']
      ''vc'' = Some (CCred zero_credential) \<and>
   decode_credential sample_state (CCred zero_credential) = Inr (sample_state, zero_credential) \<and>
   (\<exists>s2 c'. ParseVerifiableCredentialFromToken sample_env sample_state
       [''vc'' \<mapsto> CCred zero_credential, ''jti'' \<mapsto> CInt 7,
        ''sub'' \<mapsto> CStr ''did:example:456''] = Inr (s2, c') \<and>
      ID c' = '''' \<and> Issuer c' = ANil \<and> subject_id s2 c' = Some (AStr ''did:example:456''))"
proof -
  have a: "[''vc'' \<mapsto> CCred zero_credential, ''jti'' \<mapsto> CInt 7,
            ''sub'' \<mapsto> CStr ''did:example:456''] ''vc'' = Some (CCred zero_credential)"
    by simp
  have b: "decode_credential sample_state (CCred zero_credential) = Inr (sample_state, zero_credential)"
    by (simp add: decode_credential_def zero_credential_def)
  have s: "str_claim [''vc'' \<mapsto> CCred zero_credential, ''jti'' \<mapsto> CInt 7,
            ''sub'' \<mapsto> CStr ''did:example:456''] ''jti'' = ''''"
      "str_claim [''vc'' \<mapsto> CCred zero_credential, ''jti'' \<mapsto> CInt 7,
            ''sub'' \<mapsto> CStr ''did:example:456''] ''iss'' = ''''"
      "str_claim [''vc'' \<mapsto> CCred zero_credential, ''jti'' \<mapsto> CInt 7,
            ''sub'' \<mapsto> CStr ''did:example:456''] ''sub'' = ''did:example:456''"
    by (simp_all add: str_claim_def)
  have z: "ID zero_credential = ''''" "Issuer zero_credential = ANil"
    by (simp_all add: zero_credential_def)
  show ?thesis
    using a b s z
      parse_credential_lenient [of sample_env sample_state
        "[''vc'' \<mapsto> CCred zero_credential, ''jti'' \<mapsto> CInt 7,
          ''sub'' \<mapsto> CStr ''did:example:456'']"
        "CCred zero_credential" sample_state zero_credential]
    by auto
qed

text \<open>
  C6 as stated fails: a token whose \<open>vc\<close> claim is a string has the claim, and the call
  fails all the same, at the decoding of the claim.
\<close>

theorem parse_credential_counterexample:
  "[''vc'' \<mapsto> CStr ''abc''] ''vc'' = Some (CStr ''abc'') \<and>
   ParseVerifiableCredentialFromToken sample_env sample_state [''vc'' \<mapsto> CStr ''abc''] =
     Inl (Wrap ''reconstructing Verifiable Credential'' NotAnObject)"
  by (simp add: ParseVerifiableCredentialFromToken_def decode_credential_def)

section \<open>Signing a credential and reconstructing it\<close>

lemma decode_credential_copy:
  "\<exists>s1 c1. decode_credential s (CCred c) = Inr (s1, c1) \<and>
     subject_id s1 c1 = subject_id s c \<and> ID c1 = ID c \<and> Issuer c1 = Issuer c \<and>
     IssuanceDate c1 = IssuanceDate c \<and> ExpirationDate c1 = ExpirationDate c"
  by (auto simp add: decode_credential_def subject_id_def alloc_def split: option.splits)

lemma GetID_subject_id:
  "GetID s (CredentialSubject c) \<noteq> '''' \<Longrightarrow>
     subject_id s c = Some (AStr (GetID s (CredentialSubject c)))"
  by (auto simp add: GetID_def subject_id_def split: option.splits any.splits)

lemma vc_state_subject_id:
  "GetID s (CredentialSubject c) = '''' \<Longrightarrow> subject_id (vc_state s c) (stripped c) = subject_id s c"
  by (simp add: vc_state_def subject_id_def split: option.splits)

lemma vc_token_str_claims:
  "str_claim (vc_token env s cred) ''jti'' = ID cred"
  "str_claim (vc_token env s cred) ''sub'' = GetID s (CredentialSubject cred)"
  "str_claim (vc_token env s cred) ''iss'' = (case Issuer cred of AStr i \<Rightarrow> i | _ \<Rightarrow> '''')"
  by (simp_all add: str_claim_def vc_token_lookup claim_of_any_def split: any.splits)

lemma vc_token_time_claims:
  "time_claim (vc_token env s cred) ''iat'' = accept_date env (IssuanceDate cred)"
  "time_claim (vc_token env s cred) ''exp'' =
     (if ExpirationDate cred = '''' then None else accept_date env (ExpirationDate cred))"
  by (simp_all add: time_claim_def vc_token_dates split: option.splits)

lemma vc_token_nbf:
  "vc_token env s cred ''nbf'' =
     Some (case accept_date env (IssuanceDate cred) of None \<Rightarrow> CAny ANil | Some d \<Rightarrow> CTime d)"
  by (simp add: vc_token_def jwt_New_def split: option.splits)

lemma readable_vc_token: "readable (vc_token env s cred) \<longleftrightarrow> dates_read_back env cred"
  by (auto simp add: readable_def readable_claim_def vc_token_dates vc_token_nbf
        dates_read_back_def split: option.splits)

lemma parse_credential_signed:
  "ParseVerifiableCredentialFromJWT env s (signed_token sg t g) =
     (if readable t then
        (case ParseVerifiableCredentialFromToken env s (readback t) of
           Inl e \<Rightarrow> Inl (Wrap ''parsing credential from token'' e)
         | Inr (s', c) \<Rightarrow>
             Inr ((new_headers sg)\<lparr>hdr_alg := Some (resolve_alg sg)\<rparr>, readback t, s', c))
      else Inl (Wrap ''parsing credential token'' UnreadableDate))"
  by (simp add: ParseVerifiableCredentialFromJWT_def signed_token_def jwt_Parse_def
        GetJWSHeaders_def)

text \<open>The round trip of a credential whose signing succeeds.\<close>

lemma roundtrip_vc_eq:
  assumes "\<not> IsEmpty cred" and "Proof cred = None" and "vc_claims_ok env cred"
    and "crypto_sign env (resolve_alg sg) (PrivateKey sg) = Some g"
  shows "roundtrip_vc env s sg cred =
           (if dates_read_back env cred then
              (case ParseVerifiableCredentialFromToken env (vc_state s cred)
                      (readback (vc_token env s cred)) of
                 Inl e \<Rightarrow> Inl (Wrap ''parsing credential from token'' e)
               | Inr r \<Rightarrow> Inr r)
            else Inl (Wrap ''parsing credential token'' UnreadableDate))"
  using assms
  by (simp add: roundtrip_vc_def sign_vc_eq parse_credential_signed readable_vc_token Let_def
        split: sum.splits)

text \<open>What the reconstruction of a signed credential returns, field by field.\<close>

lemma roundtrip_vc_result:
  assumes "\<not> IsEmpty cred" and "Proof cred = None" and "vc_claims_ok env cred"
    and "crypto_sign env (resolve_alg sg) (PrivateKey sg) \<noteq> None"
    and "dates_read_back env cred"
  shows "\<exists>s' c'. roundtrip_vc env s sg cred = Inr (s', c') \<and>
           ID c' = ID cred \<and>
           subject_id s' c' = subject_id s cred \<and>
           Issuer c' = (if Issuer cred = AStr '''' then ANil else Issuer cred) \<and>
           IssuanceDate c' =
             (case accept_date env (IssuanceDate cred) of
                None \<Rightarrow> ''''
              | Some d \<Rightarrow> (case read_numeric_date d of
                             None \<Rightarrow> '''' | Some d' \<Rightarrow> format_rfc3339 env d')) \<and>
           ExpirationDate c' =
             (if ExpirationDate cred = '''' then ''''
              else (case accept_date env (ExpirationDate cred) of
                      None \<Rightarrow> ''''
                    | Some d \<Rightarrow> (case read_numeric_date d of
                                   None \<Rightarrow> '''' | Some d' \<Rightarrow> format_rfc3339 env d')))"
proof -
  from assms(4) obtain g where g: "crypto_sign env (resolve_alg sg) (PrivateKey sg) = Some g"
    by auto
  define t0 where "t0 = vc_token env s cred"
  define t where "t = readback t0"
  define s0 where "s0 = vc_state s cred"
  have rd: "readable t0"
    using assms(5) by (simp add: t0_def readable_vc_token)
  have r: "roundtrip_vc env s sg cred =
      (case ParseVerifiableCredentialFromToken env s0 t of
         Inl e \<Rightarrow> Inl (Wrap ''parsing credential from token'' e)
       | Inr r \<Rightarrow> Inr r)"
    using assms(5) by (simp add: roundtrip_vc_eq [OF assms(1-3) g] t_def t0_def s0_def)
  obtain s1 c1 where d: "decode_credential s0 (CCred (stripped cred)) = Inr (s1, c1)"
    and c1: "subject_id s1 c1 = subject_id s0 (stripped cred)" "ID c1 = ''''" "Issuer c1 = ANil"
      "IssuanceDate c1 = ''''" "ExpirationDate c1 = ''''"
    using decode_credential_copy [of s0 "stripped cred"] by auto
  have v: "t ''vc'' = Some (CCred (stripped cred))"
    by (simp add: t_def t0_def vc_token_lookup)
  obtain s2 c2 where p: "ParseVerifiableCredentialFromToken env s0 t = Inr (s2, c2)"
    and i: "ID c2 = (if str_claim t ''jti'' \<noteq> '''' then str_claim t ''jti'' else ID c1)"
    and a: "IssuanceDate c2 =
             (case time_claim t ''iat'' of None \<Rightarrow> IssuanceDate c1 | Some d \<Rightarrow> format_rfc3339 env d)"
    and e: "ExpirationDate c2 =
             (case time_claim t ''exp'' of None \<Rightarrow> ExpirationDate c1 | Some d \<Rightarrow> format_rfc3339 env d)"
    and u: "Issuer c2 = (if str_claim t ''iss'' \<noteq> '''' then AStr (str_claim t ''iss'') else Issuer c1)"
    and b: "subject_id s2 c2 =
             (if str_claim t ''sub'' \<noteq> '''' then Some (AStr (str_claim t ''sub''))
              else subject_id s1 c1)"
    using parse_credential_decoded [of t "CCred (stripped cred)" s0 s1 c1 env, OF v d] by blast
  from assms(3) obtain iss where iss: "Issuer cred = AStr iss"
    by (cases "Issuer cred") (simp_all add: vc_claims_ok_def)
  have ti: "time_claim t ''iat'' =
      (case accept_date env (IssuanceDate cred) of None \<Rightarrow> None | Some d \<Rightarrow> read_numeric_date d)"
    using rd by (simp add: t_def time_claim_readback_dates t0_def vc_token_time_claims)
  have te: "time_claim t ''exp'' =
      (if ExpirationDate cred = '''' then None
       else (case accept_date env (ExpirationDate cred) of
               None \<Rightarrow> None | Some d \<Rightarrow> read_numeric_date d))"
    using rd by (simp add: t_def time_claim_readback_dates t0_def vc_token_time_claims)
  have "ID c2 = ID cred"
    by (simp add: i t_def t0_def vc_token_str_claims c1)
  moreover have "subject_id s2 c2 = subject_id s cred"
    by (simp add: b t_def t0_def vc_token_str_claims c1 s0_def GetID_subject_id vc_state_subject_id)
  moreover have "Issuer c2 = (if Issuer cred = AStr '''' then ANil else Issuer cred)"
    by (simp add: u t_def t0_def vc_token_str_claims c1 iss)
  moreover have "IssuanceDate c2 =
      (case accept_date env (IssuanceDate cred) of
         None \<Rightarrow> ''''
       | Some d \<Rightarrow> (case read_numeric_date d of
                      None \<Rightarrow> '''' | Some d' \<Rightarrow> format_rfc3339 env d'))"
    by (simp add: a ti c1 split: option.splits)
  moreover have "ExpirationDate c2 =
      (if ExpirationDate cred = '''' then ''''
       else (case accept_date env (ExpirationDate cred) of
               None \<Rightarrow> ''''
             | Some d \<Rightarrow> (case read_numeric_date d of
                            None \<Rightarrow> '''' | Some d' \<Rightarrow> format_rfc3339 env d')))"
    by (simp add: e te c1 split: option.splits)
  ultimately show ?thesis
    using r p by simp
qed

lemma date_canonical_accepted:
  "date_canonical env x \<Longrightarrow>
     \<exists>d d'. accept_date env x = Some d \<and> read_numeric_date d = Some d' \<and> format_rfc3339 env d' = x"
  by (auto simp add: date_canonical_def split: option.splits)

text \<open>
  C1, as the code has it. For a credential without a proof and with a populated field,
  whose issuer is a non-empty string, whose issuance date, and expiration date unless it
  is empty, come back as they are (the token library reads the date as a time, the time
  reads back from the signed token, and printing it gives the date again), and whose
  signature the signer produces: signing the credential and reconstructing it from the
  signed token returns a credential with the same issuer, id, subject "id" entry,
  issuance date and expiration date.
\<close>

theorem roundtrip_vc_fields:
  assumes "\<not> IsEmpty cred" and "Proof cred = None"
    and "Issuer cred = AStr i" and "i \<noteq> ''''"
    and "date_canonical env (IssuanceDate cred)"
    and "ExpirationDate cred = '''' \<or> date_canonical env (ExpirationDate cred)"
    and "crypto_sign env (resolve_alg sg) (PrivateKey sg) \<noteq> None"
  shows "\<exists>s' c'. roundtrip_vc env s sg cred = Inr (s', c') \<and>
           Issuer c' = Issuer cred \<and>
           ID c' = ID cred \<and>
           subject_id s' c' = subject_id s cred \<and>
           IssuanceDate c' = IssuanceDate cred \<and>
           ExpirationDate c' = ExpirationDate cred"
proof -
  obtain d d' where d: "accept_date env (IssuanceDate cred) = Some d"
      "read_numeric_date d = Some d'" "format_rfc3339 env d' = IssuanceDate cred"
    using date_canonical_accepted [OF assms(5)] by blast
  have e: "ExpirationDate cred = '''' \<or>
      (\<exists>x x'. accept_date env (ExpirationDate cred) = Some x \<and> read_numeric_date x = Some x' \<and>
         format_rfc3339 env x' = ExpirationDate cred)"
    using assms(6) date_canonical_accepted [of env "ExpirationDate cred"] by blast
  have ok: "vc_claims_ok env cred"
    using assms(3) d e by (auto simp add: vc_claims_ok_def)
  have rb: "dates_read_back env cred"
    using d e by (auto simp add: dates_read_back_def)
  from roundtrip_vc_result [OF assms(1,2) ok assms(7) rb, of s] obtain s' c' where
    r: "roundtrip_vc env s sg cred = Inr (s', c')" "ID c' = ID cred"
      "subject_id s' c' = subject_id s cred"
      "Issuer c' = (if Issuer cred = AStr '''' then ANil else Issuer cred)"
      "IssuanceDate c' =
         (case accept_date env (IssuanceDate cred) of
            None \<Rightarrow> ''''
          | Some d \<Rightarrow> (case read_numeric_date d of
                         None \<Rightarrow> '''' | Some d' \<Rightarrow> format_rfc3339 env d'))"
      "ExpirationDate c' =
         (if ExpirationDate cred = '''' then ''''
          else (case accept_date env (ExpirationDate cred) of
                  None \<Rightarrow> ''''
                | Some d \<Rightarrow> (case read_numeric_date d of
                               None \<Rightarrow> '''' | Some d' \<Rightarrow> format_rfc3339 env d')))"
    by blast
  have "Issuer c' = Issuer cred"
    using r(4) assms(3,4) by simp
  moreover have "IssuanceDate c' = IssuanceDate cred"
    using r(5) d by simp
  moreover have "ExpirationDate c' = ExpirationDate cred"
    using r(6) e by auto
  ultimately show ?thesis
    using r(1-3) by simp
qed

lemma sample_crypto:
  "crypto_sign sample_env (resolve_alg sample_signer) (PrivateKey sample_signer) = Some ''sig-sk''"
  by (simp add: sample_env_def resolve_alg_def sample_signer_def)

lemma sample_cred_ok: "\<not> IsEmpty sample_cred" "Proof sample_cred = None"
  by (simp_all add: IsEmpty_def sample_cred_def)

lemma sample_dates_canonical:
  "date_canonical sample_env ''2024-01-01T00:00:00Z''"
  "date_canonical sample_env ''2025-01-01T00:00:00Z''"
  by (simp_all add: date_canonical_def sample_env_def read_numeric_date_small)

theorem roundtrip_vc_fields_witness:
  "\<exists>s' c'. roundtrip_vc sample_env sample_state sample_signer sample_cred = Inr (s', c') \<and>
     Issuer c' = AStr ''did:example:123'' \<and>
     ID c' = ''urn:uuid:abc'' \<and>
     subject_id s' c' = Some (AStr ''did:example:456'') \<and>
     IssuanceDate c' = ''2024-01-01T00:00:00Z'' \<and>
     ExpirationDate c' = ''2025-01-01T00:00:00Z''"
proof -
  have c: "crypto_sign sample_env (resolve_alg sample_signer) (PrivateKey sample_signer) \<noteq> None"
    by (simp add: sample_crypto)
  have i: "Issuer sample_cred = AStr ''did:example:123''" "''did:example:123'' \<noteq> ''''"
    by (simp_all add: sample_cred_def)
  have d: "date_canonical sample_env (IssuanceDate sample_cred)"
      "ExpirationDate sample_cred = '''' \<or> date_canonical sample_env (ExpirationDate sample_cred)"
    by (simp_all add: sample_cred_def sample_dates_canonical)
  have f: "ID sample_cred = ''urn:uuid:abc''"
      "subject_id sample_state sample_cred = Some (AStr ''did:example:456'')"
      "IssuanceDate sample_cred = ''2024-01-01T00:00:00Z''"
      "ExpirationDate sample_cred = ''2025-01-01T00:00:00Z''"
    by (simp_all add: sample_cred_def sample_state_def subject_id_def)
  show ?thesis
    using roundtrip_vc_fields [OF sample_cred_ok i d c, of sample_state] f i(1)
    by (auto simp del: One_nat_def)
qed

text \<open>
  C1 as stated fails, in four ways, each on a credential with populated fields and no
  proof. With the empty string as issuer, the credential reconstructed has no issuer.
  With an issuance date before 1970, the credential is signed and the signed token is
  refused when it is parsed. With an issuance date written with a zone offset, the date
  reconstructed is the same time written in UTC. With no issuer, signing fails.
\<close>

theorem roundtrip_vc_counterexample:
  "\<not> IsEmpty (sample_cred\<lparr>Issuer := AStr ''''\<rparr>) \<and>
   Proof (sample_cred\<lparr>Issuer := AStr ''''\<rparr>) = None \<and>
   map_sum (\<lambda>e. e) (\<lambda>r. Issuer (snd r))
     (roundtrip_vc sample_env sample_state sample_signer (sample_cred\<lparr>Issuer := AStr ''''\<rparr>)) =
     Inr ANil \<and>
   Issuer (sample_cred\<lparr>Issuer := AStr ''''\<rparr>) \<noteq> ANil \<and>
   roundtrip_vc sample_env sample_state sample_signer
     (sample_cred\<lparr>IssuanceDate := ''1969-12-31T23:59:59Z''\<rparr>) =
     Inl (Wrap ''parsing credential token'' UnreadableDate) \<and>
   map_sum (\<lambda>e. e) (\<lambda>r. IssuanceDate (snd r))
     (roundtrip_vc sample_env sample_state sample_signer
        (sample_cred\<lparr>IssuanceDate := ''2024-01-01T01:00:00+01:00''\<rparr>)) =
     Inr ''2024-01-01T00:00:00Z'' \<and>
   roundtrip_vc sample_env sample_state sample_signer (sample_cred\<lparr>Issuer := ANil\<rparr>) =
     Inl (Wrap ''setting exp value'' (InvalidClaimValue ''iss''))"
proof -
  have c: "crypto_sign sample_env (resolve_alg sample_signer) (PrivateKey sample_signer) \<noteq> None"
    by (simp add: sample_crypto)
  have a1: "\<not> IsEmpty (sample_cred\<lparr>Issuer := AStr ''''\<rparr>)"
      "Proof (sample_cred\<lparr>Issuer := AStr ''''\<rparr>) = None"
    by (simp_all add: IsEmpty_def sample_cred_def)
  have b1: "vc_claims_ok sample_env (sample_cred\<lparr>Issuer := AStr ''''\<rparr>)"
      "dates_read_back sample_env (sample_cred\<lparr>Issuer := AStr ''''\<rparr>)"
    by (simp_all add: vc_claims_ok_def dates_read_back_def sample_env_def sample_cred_def
          read_numeric_date_small)
  have r1: "map_sum (\<lambda>e. e) (\<lambda>r. Issuer (snd r))
     (roundtrip_vc sample_env sample_state sample_signer (sample_cred\<lparr>Issuer := AStr ''''\<rparr>)) =
     Inr ANil"
    using roundtrip_vc_result [OF a1 b1(1) c b1(2), of sample_state] by auto
  have a2: "\<not> IsEmpty (sample_cred\<lparr>IssuanceDate := ''1969-12-31T23:59:59Z''\<rparr>)"
      "Proof (sample_cred\<lparr>IssuanceDate := ''1969-12-31T23:59:59Z''\<rparr>) = None"
      "vc_claims_ok sample_env (sample_cred\<lparr>IssuanceDate := ''1969-12-31T23:59:59Z''\<rparr>)"
    by (simp_all add: IsEmpty_def vc_claims_ok_def sample_env_def sample_cred_def)
  have b2: "\<not> dates_read_back sample_env (sample_cred\<lparr>IssuanceDate := ''1969-12-31T23:59:59Z''\<rparr>)"
    by (simp add: dates_read_back_def sample_env_def sample_cred_def read_numeric_date_negative)
  have r2: "roundtrip_vc sample_env sample_state sample_signer
     (sample_cred\<lparr>IssuanceDate := ''1969-12-31T23:59:59Z''\<rparr>) =
     Inl (Wrap ''parsing credential token'' UnreadableDate)"
    using b2 by (simp add: roundtrip_vc_eq [OF a2 sample_crypto])
  have a3: "\<not> IsEmpty (sample_cred\<lparr>IssuanceDate := ''2024-01-01T01:00:00+01:00''\<rparr>)"
      "Proof (sample_cred\<lparr>IssuanceDate := ''2024-01-01T01:00:00+01:00''\<rparr>) = None"
      "vc_claims_ok sample_env (sample_cred\<lparr>IssuanceDate := ''2024-01-01T01:00:00+01:00''\<rparr>)"
    by (simp_all add: IsEmpty_def vc_claims_ok_def sample_env_def sample_cred_def)
  have b3: "dates_read_back sample_env (sample_cred\<lparr>IssuanceDate := ''2024-01-01T01:00:00+01:00''\<rparr>)"
    by (simp add: dates_read_back_def sample_env_def sample_cred_def read_numeric_date_small)
  have f3: "(case accept_date sample_env
                 (IssuanceDate (sample_cred\<lparr>IssuanceDate := ''2024-01-01T01:00:00+01:00''\<rparr>)) of
              None \<Rightarrow> ''''
            | Some d \<Rightarrow> (case read_numeric_date d of
                           None \<Rightarrow> '''' | Some d' \<Rightarrow> format_rfc3339 sample_env d')) =
            ''2024-01-01T00:00:00Z''"
    by (simp add: sample_env_def read_numeric_date_small)
  have r3: "map_sum (\<lambda>e. e) (\<lambda>r. IssuanceDate (snd r))
     (roundtrip_vc sample_env sample_state sample_signer
        (sample_cred\<lparr>IssuanceDate := ''2024-01-01T01:00:00+01:00''\<rparr>)) =
     Inr ''2024-01-01T00:00:00Z''"
    using roundtrip_vc_result [OF a3 c b3, of sample_state] f3 by auto
  have r4: "roundtrip_vc sample_env sample_state sample_signer (sample_cred\<lparr>Issuer := ANil\<rparr>) =
     Inl (Wrap ''setting exp value'' (InvalidClaimValue ''iss''))"
    by (simp add: roundtrip_vc_def sign_vc_eq IsEmpty_def vc_claims_ok_def vc_error_def
          sample_cred_def sample_env_def)
  show ?thesis
    using a1 r1 r2 r3 r4 by simp
qed

section \<open>Signing a presentation and decoding it\<close>

lemma vp_base_lookup [simp]:
  "vp_base env s ps ''jti'' = None"
  "vp_base env s ps ''iss'' = None"
  "vp_base env s ps ''vp'' = None"
  "vp_base env s ps ''nonce'' = Some (CStr (uuid_at env (uuid_count s)))"
  by (simp_all add: vp_base_def jwt_New_def split: option.splits)












section \<open>The nonce\<close>

lemma delete_key_uuid_count_same [simp]: "uuid_count (delete_key s subj k) = uuid_count s"
  by (simp add: delete_key_def split: option.splits)

lemma vc_state_uuid_count [simp]: "uuid_count (vc_state s cred) = Suc (uuid_count s)"
  by (simp add: vc_state_def)




lemma sign_request_simps [simp]:
  "sign_request env s (SignVC sg cred) = SignVerifiableCredentialJWT env s sg cred"
  "sign_request env s (SignVP sg ps pres) = SignVerifiablePresentationJWT env s sg ps pres"
  by (simp_all add: sign_request_def)












section \<open>What a signing call leaves with its caller\<close>

lemma sign_vc_out_state:
  "out_state (SignVerifiableCredentialJWT env s sg cred) =
     (if IsEmpty cred \<or> Proof cred \<noteq> None then s
      else if \<not> vc_claims_ok env cred then vc_fail_state env s cred
      else vc_state s cred)"
  by (simp add: sign_vc_eq)

lemma heap_vc_fail_state [simp]: "heap (vc_fail_state env s cred) = heap s"
  by (simp add: vc_fail_state_def)

lemma heap_vc_state:
  "heap (vc_state s cred) =
     (if GetID s (CredentialSubject cred) = '''' then heap s
      else (case CredentialSubject cred of
              None \<Rightarrow> heap s
            | Some a \<Rightarrow> (case heap s a of
                          None \<Rightarrow> heap s
                        | Some m \<Rightarrow> (heap s)(a \<mapsto> m(''id'' := None)))))"
  by (simp add: vc_state_def delete_key_def split: option.splits)

text \<open>
  C9, as the code has it. The caller's credential is the value it was before the call.
  When the credential is not empty, carries no proof, has its claim assignments accepted
  (a string issuer, dates that the token library reads) and its subject mapping holds a
  non-empty string under "id", the call removes that entry from the mapping the caller's
  credential refers to, and leaves every other mapping alone. In every other case the
  call leaves all mappings as they were.
\<close>

theorem caller_frame:
  "cred_var (fst (call_SignVerifiableCredentialJWT env sg fr)) = cred_var fr \<and>
   (\<not> IsEmpty (cred_var fr) \<and> Proof (cred_var fr) = None \<and> vc_claims_ok env (cred_var fr) \<and>
    GetID (store fr) (CredentialSubject (cred_var fr)) \<noteq> '''' \<longrightarrow>
      (\<exists>a m. CredentialSubject (cred_var fr) = Some a \<and> heap (store fr) a = Some m \<and>
             heap (store (fst (call_SignVerifiableCredentialJWT env sg fr))) a =
               Some (m(''id'' := None)) \<and>
             (\<forall>b. b \<noteq> a \<longrightarrow>
                heap (store (fst (call_SignVerifiableCredentialJWT env sg fr))) b =
                  heap (store fr) b))) \<and>
   (IsEmpty (cred_var fr) \<or> Proof (cred_var fr) \<noteq> None \<or> \<not> vc_claims_ok env (cred_var fr) \<or>
    GetID (store fr) (CredentialSubject (cred_var fr)) = '''' \<longrightarrow>
      heap (store (fst (call_SignVerifiableCredentialJWT env sg fr))) = heap (store fr))"
proof -
  have s: "store (fst (call_SignVerifiableCredentialJWT env sg fr)) =
      out_state (SignVerifiableCredentialJWT env (store fr) sg (cred_var fr))"
    by (simp add: call_SignVerifiableCredentialJWT_def Let_def)
  have "cred_var (fst (call_SignVerifiableCredentialJWT env sg fr)) = cred_var fr"
    by (simp add: call_SignVerifiableCredentialJWT_def Let_def)
  moreover have "\<exists>a m. CredentialSubject (cred_var fr) = Some a \<and> heap (store fr) a = Some m \<and>
             heap (store (fst (call_SignVerifiableCredentialJWT env sg fr))) a =
               Some (m(''id'' := None)) \<and>
             (\<forall>b. b \<noteq> a \<longrightarrow>
                heap (store (fst (call_SignVerifiableCredentialJWT env sg fr))) b =
                  heap (store fr) b)"
    if "\<not> IsEmpty (cred_var fr)" "Proof (cred_var fr) = None" "vc_claims_ok env (cred_var fr)"
      "GetID (store fr) (CredentialSubject (cred_var fr)) \<noteq> ''''"
  proof -
    from that(4) obtain a m where "CredentialSubject (cred_var fr) = Some a" "heap (store fr) a = Some m"
      by (auto simp add: GetID_def split: option.splits)
    with that show ?thesis
      by (simp add: s sign_vc_out_state heap_vc_state)
  qed
  moreover have "heap (store (fst (call_SignVerifiableCredentialJWT env sg fr))) = heap (store fr)"
    if "IsEmpty (cred_var fr) \<or> Proof (cred_var fr) \<noteq> None \<or> \<not> vc_claims_ok env (cred_var fr) \<or>
        GetID (store fr) (CredentialSubject (cred_var fr)) = ''''"
    using that by (auto simp add: s sign_vc_out_state heap_vc_state)
  ultimately show ?thesis
    by blast
qed

theorem caller_frame_witness:
  "\<exists>m. heap sample_state 0 = Some m \<and> m ''id'' = Some (AStr ''did:example:456'') \<and>
     heap (store (fst (call_SignVerifiableCredentialJWT sample_env sample_signer
        \<lparr>cred_var = sample_cred, store = sample_state\<rparr>))) 0 = Some (m(''id'' := None))"
proof -
  have a: "\<not> IsEmpty (cred_var \<lparr>cred_var = sample_cred, store = sample_state\<rparr>) \<and>
      Proof (cred_var \<lparr>cred_var = sample_cred, store = sample_state\<rparr>) = None \<and>
      vc_claims_ok sample_env (cred_var \<lparr>cred_var = sample_cred, store = sample_state\<rparr>) \<and>
      GetID (store \<lparr>cred_var = sample_cred, store = sample_state\<rparr>)
        (CredentialSubject (cred_var \<lparr>cred_var = sample_cred, store = sample_state\<rparr>)) \<noteq> ''''"
    by (simp add: sample_cred_ok sample_claims_ok sample_GetID)
  have b: "CredentialSubject sample_cred = Some 0"
    by (simp add: sample_cred_def)
  have c: "heap sample_state 0 =
      Some [''id'' \<mapsto> AStr ''did:example:456'', ''name'' \<mapsto> AStr ''Alice'']"
    by (simp add: sample_state_def)
  show ?thesis
    using caller_frame [of sample_env sample_signer "\<lparr>cred_var = sample_cred, store = sample_state\<rparr>"]
      a b c
    by auto
qed

text \<open>
  C9 as stated fails: a credential that carries a proof is rejected before its claim set
  is built, and the "id" entry of its subject mapping is still there after the call.
\<close>

theorem caller_frame_counterexample:
  "GetID sample_state (CredentialSubject (sample_cred\<lparr>Proof := Some ''p''\<rparr>)) = ''did:example:456'' \<and>
   subject_id
     (store (fst (call_SignVerifiableCredentialJWT sample_env sample_signer
        \<lparr>cred_var = sample_cred\<lparr>Proof := Some ''p''\<rparr>, store = sample_state\<rparr>)))
     (sample_cred\<lparr>Proof := Some ''p''\<rparr>) = Some (AStr ''did:example:456'')"
  by (simp add: call_SignVerifiableCredentialJWT_def Let_def SignVerifiableCredentialJWT_def
        IsEmpty_def GetID_def subject_id_def sample_cred_def sample_state_def)

end
